theory Spec2Isabelle
  imports Complex_Main
begin

section \<open>Python strings\<close>

text \<open>
  Strings are byte lists; the two non-ASCII characters of the source (the en dash and
  the em dash) are written as their UTF-8 bytes, the newline as the byte 10. \<open>strip\<close> and \<open>lower\<close> are the
  ASCII parts of \<^verbatim>\<open>str.strip()\<close> and \<^verbatim>\<open>str.lower()\<close>.
\<close>

definition is_space :: "char \<Rightarrow> bool" where
  "is_space c = (c \<in> set [CHR '' '', CHR 0x09, CHR 0x0A, CHR 0x0B, CHR 0x0C, CHR 0x0D,
                           CHR 0x1C, CHR 0x1D, CHR 0x1E, CHR 0x1F])"

definition strip :: "string \<Rightarrow> string" where
  "strip s = rev (dropWhile is_space (rev (dropWhile is_space s)))"

definition lower_char :: "char \<Rightarrow> char" where
  "lower_char c =
     (let n = (of_char c :: nat) in if 65 \<le> n \<and> n \<le> 90 then char_of (n + 32) else c)"

definition lower :: "string \<Rightarrow> string" where
  "lower s = map lower_char s"

fun startswith :: "string \<Rightarrow> string \<Rightarrow> bool" where
  "startswith s [] = True"
| "startswith [] (p # ps) = False"
| "startswith (c # cs) (p # ps) = (c = p \<and> startswith cs ps)"

text \<open>\<open>contains p s\<close> is Python's \<^verbatim>\<open>p in s\<close> on strings.\<close>

fun contains :: "string \<Rightarrow> string \<Rightarrow> bool" where
  "contains p [] = (p = [])"
| "contains p (c # cs) = (startswith (c # cs) p \<or> contains p cs)"

definition digit_char :: "nat \<Rightarrow> char" where
  "digit_char d = char_of (48 + d)"

text \<open>\<^verbatim>\<open>str(n)\<close> of a natural number and of an integer.\<close>

function str_nat :: "nat \<Rightarrow> string" where
  "str_nat n = (if n < 10 then [digit_char n] else str_nat (n div 10) @ [digit_char (n mod 10)])"
  by pat_completeness auto
termination
  by (relation "measure id") auto

definition str_int :: "int \<Rightarrow> string" where
  "str_int i = (if i < 0 then CHR ''-'' # str_nat (nat (- i)) else str_nat (nat i))"

text \<open>\<^verbatim>\<open>sep.join(xs)\<close>.\<close>

fun join :: "string \<Rightarrow> string list \<Rightarrow> string" where
  "join sep [] = []"
| "join sep [x] = x"
| "join sep (x # y # ys) = x @ sep @ join sep (y # ys)"

definition nl :: string where
  "nl = [CHR 0x0A]"

definition en_dash :: string where
  "en_dash = [CHR 0xE2, CHR 0x80, CHR 0x93]"

definition em_dash :: string where
  "em_dash = [CHR 0xE2, CHR 0x80, CHR 0x94]"

section \<open>Data model\<close>

subsection \<open>scraper.py\<close>

record SearchInput =
  location :: string
  listing_type :: string
  min_price :: "int option"
  max_price :: "int option"
  min_beds :: "int option"
  max_beds :: "int option"
  min_sqft :: "int option"
  max_sqft :: "int option"
  property_type :: "string list option"
  past_days :: int

text \<open>
  One row of a HomeHarvest table, reduced to the columns \<^verbatim>\<open>fetch_listings\<close> reads or
  keeps. \<open>None\<close> is a missing cell (NaN). A pandas DataFrame is its column labels and
  its rows; the rows keep HomeHarvest's field names also after the columns are renamed.
\<close>

record listing =
  property_url :: "string option"
  list_price :: "int option"
  street_address :: "string option"
  city :: "string option"
  state :: "string option"
  zip_code :: "string option"
  beds :: "int option"
  full_baths :: "int option"
  sqft :: "int option"
  style :: "string option"
  site_name :: "string option"

record frame =
  columns :: "string list"
  rows :: "listing list"

text \<open>
  \<^verbatim>\<open>DataFrame.empty\<close>: pandas reports a frame as empty when any of its axes has
  length 0, so a frame with rows and no columns is empty too. \<^verbatim>\<open>len(df)\<close> is the
  number of rows.
\<close>

definition empty :: "frame \<Rightarrow> bool" where
  "empty fr = (rows fr = [] \<or> columns fr = [])"

definition len :: "frame \<Rightarrow> nat" where
  "len fr = length (rows fr)"

text \<open>Exceptions, with \<^verbatim>\<open>str(e)\<close>.\<close>

datatype exn =
    GoogleAuthRequiredError string
  | KeyError string
  | ValueError string
  | AttributeError string
  | Exception string

definition quoted :: "string \<Rightarrow> string" where
  "quoted s = CHR 0x27 # s @ [CHR 0x27]"

fun str_exn :: "exn \<Rightarrow> string" where
  "str_exn (GoogleAuthRequiredError m) = m"
| "str_exn (KeyError k) = quoted k"
| "str_exn (ValueError m) = m"
| "str_exn (AttributeError m) = m"
| "str_exn (Exception m) = m"

subsection \<open>workflow.py\<close>

text \<open>
  The dictionary of search criteria that the language model produces, both as the
  parsed JSON of the intent parser and as the \<^verbatim>\<open>tool_input\<close> of a tool call: one
  optional entry per key of the schema; \<open>None\<close> is an absent key.
  \<open>get_or\<close> is \<^verbatim>\<open>dict.get(key, default)\<close>.
\<close>

record criteria_dict =
  k_location :: "string option"
  k_listing_type :: "string option"
  k_min_price :: "int option"
  k_max_price :: "int option"
  k_min_beds :: "int option"
  k_max_beds :: "int option"
  k_min_sqft :: "int option"
  k_max_sqft :: "int option"
  k_property_type :: "string list option"
  k_past_days :: "int option"

definition get_or :: "'a option \<Rightarrow> 'a \<Rightarrow> 'a" where
  "get_or entry dflt = (case entry of None \<Rightarrow> dflt | Some v \<Rightarrow> v)"

text \<open>
  The dictionary a tool hands to \<^verbatim>\<open>json.dumps\<close>, as its items in order.
  \<open>JRecords\<close> is a list of row dictionaries (\<^verbatim>\<open>to_dict(orient="records")\<close>).
\<close>

datatype jval = JNone | JStr string | JInt int | JRecords frame

type_synonym json_dict = "(string \<times> jval) list"

definition status :: "json_dict \<Rightarrow> jval option" where
  "status d = map_of d ''status''"

text \<open>Content blocks of a planner turn, tool results, and conversation messages.\<close>

datatype block =
    TextBlock string
  | ToolUseBlock string string criteria_dict
  | OtherBlock string

datatype tool_result = ToolResult (tool_use_id: string) (result: json_dict)

datatype content = Text string | Blocks "block list" | ToolResults "tool_result list"

datatype message = Message (role: string) (content: content)

record response =
  resp_content :: "block list"
  stop_reason :: string

record WorkflowInput =
  user_request :: string
  wi_user_id :: string

record WorkflowResult =
  wr_sheet_url :: string
  summary :: string
  wr_num_results :: nat
  session_id :: "string option"

record RunState =
  search :: "SearchInput option"
  user_id :: string
  df :: "frame option"
  sheet_url :: string
  num_results :: nat
  last_error :: string

subsection \<open>uagent_bridge.py\<close>

text \<open>\<^verbatim>\<open>SearchRequest\<close> and \<^verbatim>\<open>FollowUpRequest\<close> have the same fields.\<close>

record SearchRequest =
  query :: string
  msg_user_id :: string

type_synonym FollowUpRequest = SearchRequest

record SearchResponse =
  sr_sheet_url :: string
  sr_summary :: string
  sr_num_results :: nat
  sr_session_id :: string
  error :: string

subsection \<open>The process and its collaborators\<close>

text \<open>
  The module globals \<^verbatim>\<open>_last_search_time\<close> and \<^verbatim>\<open>_sessions\<close> are the fields of
  \<open>world\<close>. Its \<open>trace\<close> lists, in order, every reading of the clock and every call to
  a collaborator with what the call returned or raised: the intent parser and the planner
  (the language model), HomeHarvest's \<^verbatim>\<open>scrape_property\<close>, the sheet export
  \<^verbatim>\<open>create_listings_sheet\<close>, and the credential check behind
  \<^verbatim>\<open>get_google_auth_message\<close>.

  The collaborators themselves are the fields of \<open>env\<close>. Each takes the number of
  events before the call, so that two calls with the same arguments may answer
  differently. Clock readings are real numbers; \<open>str_float\<close> is Python's formatting of
  a float in an f-string.
\<close>

datatype event =
    EvTime real
  | EvParse string "exn + criteria_dict"
  | EvPlanner "message list" "exn + response"
  | EvScrape SearchInput "exn + frame"
  | EvSheet frame string string string "exn + string"
  | EvCredentials string "exn + unit"

record world =
  last_search_time :: real
  sessions :: "string \<rightharpoonup> message list"
  trace :: "event list"

record env =
  clock :: "nat \<Rightarrow> real"
  str_float :: "real \<Rightarrow> string"
  parse_reply :: "nat \<Rightarrow> string \<Rightarrow> exn + criteria_dict"
  messages_create :: "nat \<Rightarrow> message list \<Rightarrow> exn + response"
  scrape_property :: "nat \<Rightarrow> SearchInput \<Rightarrow> exn + frame"
  create_listings_sheet :: "nat \<Rightarrow> frame \<Rightarrow> string \<Rightarrow> string \<Rightarrow> string \<Rightarrow> exn + string"
  get_user_credentials :: "nat \<Rightarrow> string \<Rightarrow> exn + unit"

definition log :: "event \<Rightarrow> world \<Rightarrow> world" where
  "log ev w = w\<lparr>trace := trace w @ [ev]\<rparr>"

definition time_time :: "env \<Rightarrow> world \<Rightarrow> real \<times> world" where
  "time_time e w = (let t = clock e (length (trace w)) in (t, log (EvTime t) w))"

section \<open>scraper.py\<close>

definition type_map :: "(string \<times> string) list" where
  "type_map =
     [(''single_family'', ''single_family''),
      (''condo'', ''condos''),
      (''condos'', ''condos''),
      (''townhouse'', ''townhomes''),
      (''townhomes'', ''townhomes''),
      (''multi_family'', ''multi_family'')]"

text \<open>
  \<^verbatim>\<open>list(dict.fromkeys(xs))\<close> keeps the first occurrence of every element, in order.
\<close>

definition dict_fromkeys :: "string list \<Rightarrow> string list" where
  "dict_fromkeys xs = rev (remdups (rev xs))"

definition normalize_property_types :: "string list option \<Rightarrow> string list option" where
  "normalize_property_types property_types =
     (case property_types of
        None \<Rightarrow> None
      | Some items \<Rightarrow>
          if items = [] then None
          else
            (let normalized =
                   concat (map (\<lambda>item. case map_of type_map (lower (strip item)) of
                                          None \<Rightarrow> []
                                        | Some mapped \<Rightarrow> [mapped]) items)
             in if normalized = [] then None else Some (dict_fromkeys normalized)))"

text \<open>
  \<^verbatim>\<open>properties[properties[col] >= bound]\<close>: a missing column raises KeyError, a
  missing cell compares false and the row is dropped.
\<close>

definition filter_rows ::
  "string \<Rightarrow> (listing \<Rightarrow> int option) \<Rightarrow> (int \<Rightarrow> bool) \<Rightarrow> frame \<Rightarrow> exn + frame" where
  "filter_rows col cell keep fr =
     (if col \<in> set (columns fr)
      then Inr (fr\<lparr>rows := filter (\<lambda>r. case cell r of None \<Rightarrow> False | Some v \<Rightarrow> keep v) (rows fr)\<rparr>)
      else Inl (KeyError col))"

text \<open>
  One \<^verbatim>\<open>if search.bound: properties = ...\<close> step: a bound that is \<^verbatim>\<open>None\<close> or 0 is
  falsy and skips the filter; an exception raised by an earlier step stays.
\<close>

definition apply_filter ::
  "int option \<Rightarrow> string \<Rightarrow> (listing \<Rightarrow> int option) \<Rightarrow> (int \<Rightarrow> int \<Rightarrow> bool) \<Rightarrow>
   exn + frame \<Rightarrow> exn + frame" where
  "apply_filter bound col cell cmp x =
     (case x of
        Inl ex \<Rightarrow> Inl ex
      | Inr fr \<Rightarrow>
          (case bound of
             None \<Rightarrow> Inr fr
           | Some b \<Rightarrow> if b = 0 then Inr fr else filter_rows col cell (\<lambda>v. cmp v b) fr))"

definition apply_user_filters :: "SearchInput \<Rightarrow> frame \<Rightarrow> exn + frame" where
  "apply_user_filters si properties =
     (let p1 = apply_filter (min_price si) ''list_price'' list_price (\<ge>) (Inr properties);
          p2 = apply_filter (max_price si) ''list_price'' list_price (\<le>) p1;
          p3 = apply_filter (min_beds si) ''beds'' beds (\<ge>) p2;
          p4 = apply_filter (max_beds si) ''beds'' beds (\<le>) p3;
          p5 = apply_filter (min_sqft si) ''sqft'' sqft (\<ge>) p4;
          p6 = apply_filter (max_sqft si) ''sqft'' sqft (\<le>) p5
      in p6)"

definition keep_cols :: "(string \<times> string) list" where
  "keep_cols =
     [(''property_url'', ''Listing Link''),
      (''list_price'', ''Price ($)''),
      (''street_address'', ''Street Address''),
      (''city'', ''City''),
      (''state'', ''State''),
      (''zip_code'', ''Zip Code''),
      (''beds'', ''Beds''),
      (''full_baths'', ''Baths''),
      (''sqft'', ''Size (sqft)''),
      (''style'', ''Property Type''),
      (''site_name'', ''Source'')]"

text \<open>
  \<^verbatim>\<open>sort_values("Price ($)", ascending=True)\<close>: ascending prices, missing prices
  last. pandas does not fix the order of rows with equal prices; the model keeps their
  order.
\<close>

definition price_le :: "int option \<Rightarrow> int option \<Rightarrow> bool" where
  "price_le a b =
     (case b of None \<Rightarrow> True | Some y \<Rightarrow> (case a of None \<Rightarrow> False | Some x \<Rightarrow> x \<le> y))"

fun insort_price :: "listing \<Rightarrow> listing list \<Rightarrow> listing list" where
  "insort_price r [] = [r]"
| "insort_price r (s # ss) =
     (if price_le (list_price r) (list_price s) then r # s # ss else s # insort_price r ss)"

definition sort_values_price :: "listing list \<Rightarrow> listing list" where
  "sort_values_price rs = foldr insort_price rs []"

definition head :: "nat \<Rightarrow> frame \<Rightarrow> frame" where
  "head n fr = fr\<lparr>rows := take n (rows fr)\<rparr>"

text \<open>
  The keyword arguments of \<^verbatim>\<open>scrape_property\<close> are the fields of the search, with the
  property types normalized.
\<close>

definition fetch_listings :: "env \<Rightarrow> SearchInput \<Rightarrow> world \<Rightarrow> (exn + frame) \<times> world" where
  "fetch_listings e si w =
     (let normalized_property_types = normalize_property_types (property_type si);
          args = si\<lparr>property_type := normalized_property_types\<rparr>;
          r = scrape_property e (length (trace w)) args;
          w1 = log (EvScrape args r) w
      in case r of
           Inl ex \<Rightarrow> (Inl ex, w1)
         | Inr properties \<Rightarrow>
             if empty properties then (Inr properties, w1)
             else
               (case apply_user_filters si properties of
                  Inl ex \<Rightarrow> (Inl ex, w1)
                | Inr filtered \<Rightarrow>
                    (let available = filter (\<lambda>(k, v). k \<in> set (columns filtered)) keep_cols;
                         renamed = \<lparr>columns = map snd available, rows = rows filtered\<rparr>;
                         sorted_result =
                           (if ''Price ($)'' \<in> set (columns renamed)
                            then renamed\<lparr>rows := sort_values_price (rows renamed)\<rparr>
                            else renamed)
                     in (Inr (head 20 sorted_result), w1))))"

section \<open>workflow.py\<close>

definition SEARCH_COOLDOWN_SECONDS :: real where
  "SEARCH_COOLDOWN_SECONDS = 8"

text \<open>\<^verbatim>\<open>round(x, 1)\<close>: the nearest multiple of 0.1, a tie going to the even one.\<close>

definition round1 :: "real \<Rightarrow> real" where
  "round1 x =
     (let y = x * 10;
          f = \<lfloor>y\<rfloor>;
          d = y - of_int f
      in of_int (if d < 1 / 2 then f
                 else if 1 / 2 < d then f + 1
                 else if even f then f else f + 1) / 10)"

text \<open>
  The intent parser. \<open>parse_reply\<close> is the language model's answer to the parsing
  prompt, with the code fence stripped and decoded by \<^verbatim>\<open>json.loads\<close>; it raises when
  the answer is not JSON.
\<close>

definition parse_search_intent ::
  "env \<Rightarrow> string \<Rightarrow> world \<Rightarrow> (exn + SearchInput) \<times> world" where
  "parse_search_intent e request w =
     (let r = parse_reply e (length (trace w)) request;
          w1 = log (EvParse request r) w
      in case r of
           Inl ex \<Rightarrow> (Inl ex, w1)
         | Inr parsed \<Rightarrow>
             (Inr \<lparr>location = get_or (k_location parsed) [],
                   listing_type = get_or (k_listing_type parsed) ''for_sale'',
                   min_price = k_min_price parsed,
                   max_price = k_max_price parsed,
                   min_beds = k_min_beds parsed,
                   max_beds = k_max_beds parsed,
                   min_sqft = k_min_sqft parsed,
                   max_sqft = k_max_sqft parsed,
                   property_type = k_property_type parsed,
                   past_days = get_or (k_past_days parsed) 30\<rparr>, w1))"

subsection \<open>Tool execution\<close>

text \<open>
  \<^verbatim>\<open>int(df["Price ($)"].min())\<close> and its siblings, or \<^verbatim>\<open>None\<close> without the column.
  The statistic skips missing prices; with no price at all it is NaN and \<^verbatim>\<open>int\<close>
  raises. \<^verbatim>\<open>int\<close> truncates the mean towards zero.
\<close>

definition prices :: "frame \<Rightarrow> int list" where
  "prices d = map the (filter (\<lambda>c. c \<noteq> None) (map list_price (rows d)))"

definition price_stat :: "(int list \<Rightarrow> int) \<Rightarrow> frame \<Rightarrow> exn + jval" where
  "price_stat f d =
     (if ''Price ($)'' \<in> set (columns d)
      then (if prices d = [] then Inl (ValueError ''cannot convert float NaN to integer'')
            else Inr (JInt (f (prices d))))
      else Inr JNone)"

definition list_min :: "int list \<Rightarrow> int" where
  "list_min ps = fold min (tl ps) (hd ps)"

definition list_max :: "int list \<Rightarrow> int" where
  "list_max ps = fold max (tl ps) (hd ps)"

definition list_mean :: "int list \<Rightarrow> int" where
  "list_mean ps =
     (let s = sum_list ps; n = int (length ps)
      in if 0 \<le> s then s div n else - ((- s) div n))"

text \<open>The \<^verbatim>\<open>except Exception\<close> branch of \<^verbatim>\<open>search_listings\<close>.\<close>

definition search_failed :: "exn \<Rightarrow> RunState \<Rightarrow> json_dict \<times> RunState" where
  "search_failed ex st =
     ([(''status'', JStr ''error''), (''error'', JStr (str_exn ex)), (''num_results'', JInt 0)],
      st\<lparr>df := None, num_results := 0, last_error := str_exn ex\<rparr>)"

text \<open>The dictionary of a successful search; building it may raise.\<close>

definition search_success :: "SearchInput \<Rightarrow> frame \<Rightarrow> exn + json_dict" where
  "search_success si d =
     (case price_stat list_min d of
        Inl ex \<Rightarrow> Inl ex
      | Inr pmin \<Rightarrow>
          (case price_stat list_max d of
             Inl ex \<Rightarrow> Inl ex
           | Inr pmax \<Rightarrow>
               (case price_stat list_mean d of
                  Inl ex \<Rightarrow> Inl ex
                | Inr pavg \<Rightarrow>
                    Inr [(''status'', JStr ''success''),
                         (''num_results'', JInt (int (len d))),
                         (''location'', JStr (location si)),
                         (''listing_type'', JStr (listing_type si)),
                         (''price_min'', pmin),
                         (''price_max'', pmax),
                         (''price_avg'', pavg),
                         (''sample_listings'', JRecords (head 5 d))])))"

definition no_data :: json_dict where
  "no_data =
     [(''status'', JStr ''error''),
      (''error'', JStr (''No listings data '' @ em_dash @ '' run search_listings first.''))]"

text \<open>The \<^verbatim>\<open>SearchInput\<close> that \<^verbatim>\<open>search_listings\<close> builds from the tool input.\<close>

definition tool_criteria :: "criteria_dict \<Rightarrow> RunState \<Rightarrow> SearchInput" where
  "tool_criteria tool_input st =
     \<lparr>location = get_or (k_location tool_input)
                   (case search st of Some s \<Rightarrow> location s | None \<Rightarrow> []),
      listing_type = get_or (k_listing_type tool_input) ''for_sale'',
      min_price = k_min_price tool_input,
      max_price = k_max_price tool_input,
      min_beds = k_min_beds tool_input,
      max_beds = k_max_beds tool_input,
      min_sqft = k_min_sqft tool_input,
      max_sqft = k_max_sqft tool_input,
      property_type = k_property_type tool_input,
      past_days = get_or (k_past_days tool_input) 30\<rparr>"

definition execute_tool ::
  "env \<Rightarrow> string \<Rightarrow> criteria_dict \<Rightarrow> RunState \<Rightarrow> world \<Rightarrow> json_dict \<times> RunState \<times> world" where
  "execute_tool e tool_name tool_input st w =
     (if tool_name = ''search_listings'' then
        (let (now, w1) = time_time e w;
             elapsed = now - last_search_time w1
         in if last_search_time w1 > 0 \<and> elapsed < SEARCH_COOLDOWN_SECONDS then
              (let wait = round1 (SEARCH_COOLDOWN_SECONDS - elapsed)
               in ([(''status'', JStr ''rate_limited''),
                    (''message'', JStr (''Please wait '' @ str_float e wait @
                                        ''s before searching again.''))],
                   st, w1))
            else
              (let (stamp, w2) = time_time e w1;
                   w3 = w2\<lparr>last_search_time := stamp\<rparr>;
                   si = tool_criteria tool_input st;
                   st1 = st\<lparr>search := Some si\<rparr>;
                   (r, w4) = fetch_listings e si w3
               in case r of
                    Inl ex \<Rightarrow> (let (d, st2) = search_failed ex st1 in (d, st2, w4))
                  | Inr fr \<Rightarrow>
                      (let st2 = st1\<lparr>df := Some fr,
                                      num_results := (if \<not> empty fr then len fr else 0),
                                      last_error := []\<rparr>
                       in if empty fr then
                            ([(''status'', JStr ''no_results''),
                              (''message'', JStr (''No listings found in '' @ location si @
                                                  '' with the given filters.'')),
                              (''num_results'', JInt 0),
                              (''location'', JStr (location si))],
                             st2, w4)
                          else
                            (case search_success si fr of
                               Inl ex \<Rightarrow> (let (d, st3) = search_failed ex st2 in (d, st3, w4))
                             | Inr d \<Rightarrow> (d, st2, w4)))))
      else if tool_name = ''create_sheet'' then
        (case df st of
           None \<Rightarrow> (no_data, st, w)
         | Some fr \<Rightarrow>
             if empty fr then (no_data, st, w)
             else
               (let (r, w1) =
                      (case search st of
                         None \<Rightarrow>
                           (Inl (AttributeError (quoted ''NoneType'' @
                                   '' object has no attribute '' @ quoted ''location'')), w)
                       | Some s \<Rightarrow>
                           (let r = create_listings_sheet e (length (trace w)) fr (location s)
                                      (listing_type s) (user_id st)
                            in (r, log (EvSheet fr (location s) (listing_type s) (user_id st) r) w)))
                in case r of
                     Inr url \<Rightarrow>
                       ([(''status'', JStr ''success''), (''sheet_url'', JStr url),
                         (''num_rows'', JInt (int (len fr)))],
                        st\<lparr>sheet_url := url, last_error := []\<rparr>, w1)
                   | Inl (GoogleAuthRequiredError m) \<Rightarrow>
                       ([(''status'', JStr ''auth_required''), (''error'', JStr m)],
                        st\<lparr>last_error := m\<rparr>, w1)
                   | Inl ex \<Rightarrow>
                       ([(''status'', JStr ''error''), (''error'', JStr (str_exn ex))],
                        st\<lparr>last_error := str_exn ex\<rparr>, w1)))
      else ([(''error'', JStr (''Unknown tool: '' @ tool_name))], st, w))"

subsection \<open>The agent loop\<close>

definition max_iterations :: nat where
  "max_iterations = 8"

text \<open>\<^verbatim>\<open>value or 'any'\<close> inside an f-string: \<^verbatim>\<open>None\<close> and 0 are falsy.\<close>

definition or_any :: "int option \<Rightarrow> string" where
  "or_any v = (case v of None \<Rightarrow> ''any'' | Some i \<Rightarrow> if i = 0 then ''any'' else str_int i)"

definition user_prompt :: "SearchInput \<Rightarrow> string" where
  "user_prompt si =
     ''Find real estate listings and create a Google Sheet:'' @ nl @
     ''- Location     : '' @ location si @ nl @
     ''- Listing type : '' @ listing_type si @ nl @
     ''- Price range  : $'' @ or_any (min_price si) @ '' '' @ en_dash @ '' '' @
        or_any (max_price si) @ nl @
     ''- Beds         : '' @ or_any (min_beds si) @ ''+'' @ nl @
     ''- Property type: '' @
        (case property_type si of
           None \<Rightarrow> ''any''
         | Some ts \<Rightarrow> if ts = [] then ''any'' else join '', '' ts) @ nl @ nl @
     ''Call search_listings first, then create_sheet.''"

text \<open>The text of the last block that has one, as the summary of a final answer.\<close>

definition last_text :: "block list \<Rightarrow> string \<Rightarrow> string" where
  "last_text bs init = fold (\<lambda>b acc. case b of TextBlock t \<Rightarrow> t | _ \<Rightarrow> acc) bs init"

text \<open>Every tool call of one planner turn, in order, with the results collected.\<close>

fun run_tools ::
  "env \<Rightarrow> block list \<Rightarrow> RunState \<Rightarrow> world \<Rightarrow> tool_result list \<times> RunState \<times> world" where
  "run_tools e [] st w = ([], st, w)"
| "run_tools e (ToolUseBlock i n inp # bs) st w =
     (let (result_str, st1, w1) = execute_tool e n inp st w;
          (tool_results, st2, w2) = run_tools e bs st1 w1
      in (ToolResult i result_str # tool_results, st2, w2))"
| "run_tools e (b # bs) st w = run_tools e bs st w"

text \<open>
  The \<^verbatim>\<open>for iteration in range(max_iterations)\<close> loop, by the number of iterations
  left. It yields the messages, the final summary (empty unless the planner ended its
  turn) and the run state, or the exception of a failed planner call.
\<close>

fun agent_loop ::
  "env \<Rightarrow> nat \<Rightarrow> message list \<Rightarrow> RunState \<Rightarrow> world \<Rightarrow>
   (exn + message list \<times> string \<times> RunState) \<times> world" where
  "agent_loop e 0 messages st w = (Inr (messages, [], st), w)"
| "agent_loop e (Suc n) messages st w =
     (let r = messages_create e (length (trace w)) messages;
          w1 = log (EvPlanner messages r) w
      in case r of
           Inl ex \<Rightarrow> (Inl ex, w1)
         | Inr rsp \<Rightarrow>
             (let messages1 = messages @ [Message ''assistant'' (Blocks (resp_content rsp))]
              in if stop_reason rsp = ''end_turn'' then
                   (Inr (messages1, last_text (resp_content rsp) [], st), w1)
                 else if stop_reason rsp = ''tool_use'' then
                   (let (tool_results, st2, w2) = run_tools e (resp_content rsp) st w1
                    in agent_loop e n (messages1 @ [Message ''user'' (ToolResults tool_results)])
                         st2 w2)
                 else (Inr (messages1, [], st), w1)))"

text \<open>The summary synthesized when the planner gave no final text.\<close>

definition fallback_summary :: "SearchInput \<Rightarrow> RunState \<Rightarrow> string" where
  "fallback_summary si st =
     (if sheet_url st \<noteq> [] \<and> num_results st > 0 then
        ''Found '' @ str_nat (num_results st) @ '' listings in '' @ location si @ ''. '' @
        ''Google Sheet: '' @ sheet_url st
      else if last_error st \<noteq> [] then
        ''Found '' @ str_nat (num_results st) @ '' listings in '' @ location si @
        '', but sheet creation failed. '' @ last_error st
      else ''No listings found in '' @ location si @ '' matching your criteria.'')"

text \<open>\<^verbatim>\<open>_RunState(search=search, user_id=user_id)\<close>, the other fields at their defaults.\<close>

definition initial_state :: "SearchInput \<Rightarrow> string \<Rightarrow> RunState" where
  "initial_state si uid =
     \<lparr>search = Some si, user_id = uid, df = None, sheet_url = [], num_results = 0,
      last_error = []\<rparr>"

definition run_agent_loop ::
  "env \<Rightarrow> SearchInput \<Rightarrow> string \<Rightarrow> message list option \<Rightarrow> world \<Rightarrow>
   (exn + WorkflowResult) \<times> world" where
  "run_agent_loop e si uid prior_messages w =
     (let st = initial_state si uid;
          messages = get_or prior_messages [] @ [Message ''user'' (Text (user_prompt si))]
      in case agent_loop e max_iterations messages st w of
           (Inl ex, w1) \<Rightarrow> (Inl ex, w1)
         | (Inr (messages1, final_summary, st1), w1) \<Rightarrow>
             (let w2 = w1\<lparr>sessions := (sessions w1)(uid \<mapsto> messages1)\<rparr>;
                  final_summary1 =
                    (if final_summary = [] then fallback_summary si st1 else final_summary)
              in (Inr \<lparr>wr_sheet_url = sheet_url st1,
                       summary = final_summary1,
                       wr_num_results = num_results st1,
                       session_id = Some uid\<rparr>, w2)))"

subsection \<open>Public entry points\<close>

definition no_location_summary :: string where
  "no_location_summary =
     ''Could not determine a location. Please include a city, state, or zip code.''"

definition run_workflow ::
  "env \<Rightarrow> WorkflowInput \<Rightarrow> world \<Rightarrow> (exn + WorkflowResult) \<times> world" where
  "run_workflow e input_data w =
     (case parse_search_intent e (user_request input_data) w of
        (Inl ex, w1) \<Rightarrow> (Inl ex, w1)
      | (Inr si, w1) \<Rightarrow>
          if location si = [] then
            (Inr \<lparr>wr_sheet_url = [], summary = no_location_summary, wr_num_results = 0,
                  session_id = None\<rparr>, w1)
          else
            run_agent_loop e si (wi_user_id input_data) None
              (w1\<lparr>sessions := (sessions w1)(wi_user_id input_data := None)\<rparr>))"

definition resume_workflow ::
  "env \<Rightarrow> WorkflowInput \<Rightarrow> world \<Rightarrow> (exn + WorkflowResult) \<times> world" where
  "resume_workflow e input_data w =
     (let prior_messages = sessions w (wi_user_id input_data)
      in if prior_messages \<noteq> None \<and> prior_messages \<noteq> Some [] then
           (case parse_search_intent e (user_request input_data) w of
              (Inl ex, w1) \<Rightarrow> (Inl ex, w1)
            | (Inr si, w1) \<Rightarrow>
                run_agent_loop e si (wi_user_id input_data) prior_messages w1)
         else run_workflow e input_data w)"

section \<open>sheets.py\<close>

definition get_google_auth_message :: "env \<Rightarrow> string \<Rightarrow> world \<Rightarrow> (exn + string) \<times> world" where
  "get_google_auth_message e uid w =
     (let r = get_user_credentials e (length (trace w)) uid;
          w1 = log (EvCredentials uid r) w
      in case r of
           Inr creds \<Rightarrow> (Inr ''Google is already connected for this user.'', w1)
         | Inl (GoogleAuthRequiredError m) \<Rightarrow> (Inr m, w1)
         | Inl ex \<Rightarrow> (Inl ex, w1))"

section \<open>uagent_bridge.py\<close>

definition resolve_user_id :: "string \<Rightarrow> string \<Rightarrow> string" where
  "resolve_user_id message_user_id sender =
     (let v = strip message_user_id in if v \<noteq> [] then v else sender)"

definition default_response :: SearchResponse where
  "default_response =
     \<lparr>sr_sheet_url = [], sr_summary = [], sr_num_results = 0, sr_session_id = [], error = []\<rparr>"

text \<open>
  A handler yields the \<^verbatim>\<open>SearchResponse\<close> it sends to the sender, or \<open>None\<close> when an
  exception leaves the handler before anything is sent.
\<close>

definition handle_search ::
  "env \<Rightarrow> string \<Rightarrow> SearchRequest \<Rightarrow> world \<Rightarrow> SearchResponse option \<times> world" where
  "handle_search e sender msg w =
     (let uid = resolve_user_id (msg_user_id msg) sender;
          normalized_query = lower (strip (query msg))
      in if normalized_query \<in> set [''/google-auth'', ''google auth'', ''connect google''] then
           (case get_google_auth_message e uid w of
              (Inl ex, w1) \<Rightarrow> (None, w1)
            | (Inr instructions, w1) \<Rightarrow>
                (Some (default_response
                   \<lparr>sr_summary := instructions,
                    sr_session_id := uid,
                    error := (if startswith instructions ''Google is already connected''
                              then [] else instructions)\<rparr>), w1))
         else
           (case run_workflow e \<lparr>user_request = query msg, wi_user_id = uid\<rparr> w of
              (Inr res, w1) \<Rightarrow>
                (let err = (if wr_sheet_url res = [] \<and>
                               contains ''Google authorization required'' (summary res)
                            then summary res else [])
                 in (Some \<lparr>sr_sheet_url = wr_sheet_url res,
                           sr_summary = summary res,
                           sr_num_results = wr_num_results res,
                           sr_session_id =
                             (case session_id res of
                                None \<Rightarrow> uid
                              | Some sid \<Rightarrow> if sid = [] then uid else sid),
                           error = err\<rparr>, w1))
            | (Inl ex, w1) \<Rightarrow>
                (Some (default_response\<lparr>error := str_exn ex, sr_session_id := uid\<rparr>), w1)))"

definition handle_followup ::
  "env \<Rightarrow> string \<Rightarrow> FollowUpRequest \<Rightarrow> world \<Rightarrow> SearchResponse option \<times> world" where
  "handle_followup e sender msg w =
     (let uid = resolve_user_id (msg_user_id msg) sender
      in case resume_workflow e \<lparr>user_request = query msg, wi_user_id = uid\<rparr> w of
           (Inr res, w1) \<Rightarrow>
             (Some \<lparr>sr_sheet_url = wr_sheet_url res,
                    sr_summary = summary res,
                    sr_num_results = wr_num_results res,
                    sr_session_id =
                      (case session_id res of
                         None \<Rightarrow> uid
                       | Some sid \<Rightarrow> if sid = [] then uid else sid),
                    error = []\<rparr>, w1)
         | (Inl ex, w1) \<Rightarrow>
             (Some (default_response\<lparr>error := str_exn ex, sr_session_id := uid\<rparr>), w1))"

section \<open>Reading traces and conversations\<close>

text \<open>
  The planner calls in a trace and the replies they returned; the events a tool call can
  add; the planner turns and the tool-result turns of a conversation.
\<close>

fun is_planner_call :: "event \<Rightarrow> bool" where
  "is_planner_call (EvPlanner ms r) = True"
| "is_planner_call ev = False"

definition planner_calls :: "event list \<Rightarrow> nat" where
  "planner_calls tr = length (filter is_planner_call tr)"

fun reply_of :: "event \<Rightarrow> response list" where
  "reply_of (EvPlanner ms (Inr rsp)) = [rsp]"
| "reply_of ev = []"

definition planner_replies :: "event list \<Rightarrow> response list" where
  "planner_replies tr = concat (map reply_of tr)"

fun tool_event :: "event \<Rightarrow> bool" where
  "tool_event (EvTime t) = True"
| "tool_event (EvScrape args r) = True"
| "tool_event (EvSheet fr l t u r) = True"
| "tool_event ev = False"

fun tool_use_ids :: "block list \<Rightarrow> string list" where
  "tool_use_ids [] = []"
| "tool_use_ids (ToolUseBlock i n inp # bs) = i # tool_use_ids bs"
| "tool_use_ids (b # bs) = tool_use_ids bs"

fun planner_turn :: "message \<Rightarrow> block list list" where
  "planner_turn (Message r (Blocks bs)) = (if r = ''assistant'' then [bs] else [])"
| "planner_turn m = []"

definition planner_turns :: "message list \<Rightarrow> block list list" where
  "planner_turns ms = concat (map planner_turn ms)"

fun tool_result_turn :: "message \<Rightarrow> tool_result list list" where
  "tool_result_turn (Message r (ToolResults rs)) = (if r = ''user'' then [rs] else [])"
| "tool_result_turn m = []"

definition tool_result_turns :: "message list \<Rightarrow> tool_result list list" where
  "tool_result_turns ms = concat (map tool_result_turn ms)"

text \<open>
  The turns a run appends after its instruction turn: planner turns, each either the
  last turn or followed at once by one tool-result turn that answers every tool call of
  the planner turn, in the order requested.
\<close>

fun turns_ok :: "message list \<Rightarrow> bool" where
  "turns_ok [] = True"
| "turns_ok [Message r (Blocks bs)] = (r = ''assistant'')"
| "turns_ok (Message r (Blocks bs) # Message r' (ToolResults rs) # rest) =
     (r = ''assistant'' \<and> r' = ''user'' \<and> map tool_use_id rs = tool_use_ids bs \<and> turns_ok rest)"
| "turns_ok ms = False"

text \<open>
  The final text answer among the planner's replies of a run: the text of the last reply
  when that reply ended the turn, and empty otherwise.
\<close>

definition final_text :: "response list \<Rightarrow> string" where
  "final_text rs =
     (if rs \<noteq> [] \<and> stop_reason (last rs) = ''end_turn''
      then last_text (resp_content (last rs)) [] else [])"

section \<open>The merge of search criteria, as specified\<close>

text \<open>
  The merge in the words of the specification: an override that is supplied takes
  precedence, and every field that is not supplied keeps the value of the run's current
  criteria. It is compared with \<open>tool_criteria\<close>, which is what the code builds.
\<close>

definition spec_merge :: "criteria_dict \<Rightarrow> SearchInput \<Rightarrow> SearchInput" where
  "spec_merge overrides cur =
     \<lparr>location = get_or (k_location overrides) (location cur),
      listing_type = get_or (k_listing_type overrides) (listing_type cur),
      min_price = (case k_min_price overrides of None \<Rightarrow> min_price cur | Some v \<Rightarrow> Some v),
      max_price = (case k_max_price overrides of None \<Rightarrow> max_price cur | Some v \<Rightarrow> Some v),
      min_beds = (case k_min_beds overrides of None \<Rightarrow> min_beds cur | Some v \<Rightarrow> Some v),
      max_beds = (case k_max_beds overrides of None \<Rightarrow> max_beds cur | Some v \<Rightarrow> Some v),
      min_sqft = (case k_min_sqft overrides of None \<Rightarrow> min_sqft cur | Some v \<Rightarrow> Some v),
      max_sqft = (case k_max_sqft overrides of None \<Rightarrow> max_sqft cur | Some v \<Rightarrow> Some v),
      property_type =
        (case k_property_type overrides of None \<Rightarrow> property_type cur | Some v \<Rightarrow> Some v),
      past_days = get_or (k_past_days overrides) (past_days cur)\<rparr>"

section \<open>Example scenarios\<close>

text \<open>
  Concrete collaborators and states on which the theorems below are instantiated. The
  clock of the examples advances by one second per event; the planner answers with a
  final text; HomeHarvest returns three rows; the export succeeds.
\<close>

definition no_criteria :: criteria_dict where
  "no_criteria =
     \<lparr>k_location = None, k_listing_type = None, k_min_price = None, k_max_price = None,
      k_min_beds = None, k_max_beds = None, k_min_sqft = None, k_max_sqft = None,
      k_property_type = None, k_past_days = None\<rparr>"

definition priced :: "int option \<Rightarrow> listing" where
  "priced p =
     \<lparr>property_url = None, list_price = p, street_address = None, city = None,
      state = None, zip_code = None, beds = None, full_baths = None, sqft = None,
      style = None, site_name = None\<rparr>"

definition three_rows :: frame where
  "three_rows = \<lparr>columns = [''list_price''], rows = [priced (Some 5), priced None, priced (Some 3)]\<rparr>"

definition final_answer :: response where
  "final_answer = \<lparr>resp_content = [TextBlock ''Done.''], stop_reason = ''end_turn''\<rparr>"

definition example_env :: env where
  "example_env =
     \<lparr>clock = (\<lambda>i. 1000 + real i),
      str_float = (\<lambda>x. ''?''),
      parse_reply = (\<lambda>i q. Inr (no_criteria\<lparr>k_location := Some ''Austin, TX''\<rparr>)),
      messages_create = (\<lambda>i ms. Inr final_answer),
      scrape_property = (\<lambda>i a. Inr three_rows),
      create_listings_sheet = (\<lambda>i fr l t u. Inr ''https://sheet/abc''),
      get_user_credentials = (\<lambda>i u. Inr ())\<rparr>"

text \<open>The process at start-up: no search yet, no session, nothing called.\<close>

definition fresh_world :: world where
  "fresh_world = \<lparr>last_search_time = 0, sessions = Map.empty, trace = []\<rparr>"

definition rental :: SearchInput where
  "rental =
     \<lparr>location = ''San Diego, CA'', listing_type = ''for_rent'', min_price = None,
      max_price = None, min_beds = Some 2, max_beds = None, min_sqft = None, max_sqft = None,
      property_type = None, past_days = 30\<rparr>"

text \<open>
  A planner that never gives a final answer and asks for a search in every turn, and one
  that stops with a reason the loop does not know.
\<close>

definition asking_env :: env where
  "asking_env =
     example_env\<lparr>messages_create := (\<lambda>i ms.
        Inr \<lparr>resp_content = [TextBlock ''Searching.'',
                             ToolUseBlock ''t1'' ''search_listings'' no_criteria],
             stop_reason = ''tool_use''\<rparr>)\<rparr>"

definition cut_off_env :: env where
  "cut_off_env =
     example_env\<lparr>messages_create := (\<lambda>i ms.
        Inr \<lparr>resp_content = [], stop_reason = ''max_tokens''\<rparr>)\<rparr>"

text \<open>
  A user who has not yet authorized the export: the planner asks for a search and a
  sheet in every turn, and the export raises the authorization error.
\<close>

definition auth_instructions :: string where
  "auth_instructions = ''Google authorization required for sheet creation.''"

definition unauthorized_env :: env where
  "unauthorized_env =
     example_env\<lparr>
       messages_create := (\<lambda>i ms.
         Inr \<lparr>resp_content = [ToolUseBlock ''t1'' ''search_listings'' no_criteria,
                              ToolUseBlock ''t2'' ''create_sheet'' no_criteria],
              stop_reason = ''tool_use''\<rparr>),
       create_listings_sheet := (\<lambda>i fr l t u. Inl (GoogleAuthRequiredError auth_instructions))\<rparr>"

text \<open>
  A request that names no place, a request whose parse fails, and the process after a
  first run for user \<open>u\<close>, which left a session.
\<close>

definition vague_env :: env where
  "vague_env = example_env\<lparr>parse_reply := (\<lambda>i q. Inr no_criteria)\<rparr>"

definition unparsed_env :: env where
  "unparsed_env = example_env\<lparr>parse_reply := (\<lambda>i q. Inl (ValueError ''Expecting value''))\<rparr>"

definition first_request :: WorkflowInput where
  "first_request = \<lparr>user_request = ''3 bed house in Austin TX'', wi_user_id = ''u''\<rparr>"

definition next_request :: WorkflowInput where
  "next_request = \<lparr>user_request = ''show me cheaper ones'', wi_user_id = ''u''\<rparr>"

definition world_after_run :: world where
  "world_after_run = snd (run_workflow example_env first_request fresh_world)"







section \<open>The tool executor\<close>

lemma create_sheet_no_data:
  assumes "df st = None \<or> empty (the (df st))"
  shows "execute_tool e ''create_sheet'' ti st w = (no_data, st, w)"
  using assms by (auto simp: execute_tool_def split: option.splits)

lemma search_rate_limited:
  assumes "0 < last_search_time w"
      and "clock e (length (trace w)) - last_search_time w < 8"
  shows "execute_tool e ''search_listings'' ti st w =
           ([(''status'', JStr ''rate_limited''),
             (''message'', JStr (''Please wait '' @
                str_float e (round1 (8 - (clock e (length (trace w)) - last_search_time w))) @
                ''s before searching again.''))],
            st, w\<lparr>trace := trace w @ [EvTime (clock e (length (trace w)))]\<rparr>)"
  using assms
  by (simp add: execute_tool_def time_time_def log_def SEARCH_COOLDOWN_SECONDS_def Let_def)

lemma fetch_listings_world:
  "snd (fetch_listings e si w) =
     w\<lparr>trace := trace w @
        [EvScrape (si\<lparr>property_type := normalize_property_types (property_type si)\<rparr>)
           (scrape_property e (length (trace w))
              (si\<lparr>property_type := normalize_property_types (property_type si)\<rparr>))]\<rparr>"
  by (simp add: fetch_listings_def log_def Let_def split: sum.splits)

lemma search_proceeds:
  assumes "\<not> (0 < last_search_time w \<and> clock e (length (trace w)) - last_search_time w < 8)"
  shows "\<exists>d st'.
           execute_tool e ''search_listings'' ti st w =
             (d, st',
              w\<lparr>last_search_time := clock e (Suc (length (trace w))),
                trace := trace w @
                 [EvTime (clock e (length (trace w))),
                  EvTime (clock e (Suc (length (trace w)))),
                  EvScrape ((tool_criteria ti st)\<lparr>property_type :=
                              normalize_property_types (k_property_type ti)\<rparr>)
                    (scrape_property e (length (trace w) + 2)
                       ((tool_criteria ti st)\<lparr>property_type :=
                              normalize_property_types (k_property_type ti)\<rparr>))]\<rparr>)
           \<and> search st' = Some (tool_criteria ti st)
           \<and> status d \<in> {Some (JStr ''error''), Some (JStr ''no_results''),
                          Some (JStr ''success'')}"
proof -
  let ?w3 = "w\<lparr>trace := trace w @ [EvTime (clock e (length (trace w))),
                                     EvTime (clock e (Suc (length (trace w))))],
               last_search_time := clock e (Suc (length (trace w)))\<rparr>"
  obtain r w4 where f: "fetch_listings e (tool_criteria ti st) ?w3 = (r, w4)"
    by (cases "fetch_listings e (tool_criteria ti st) ?w3") auto
  have w4: "w4 = w\<lparr>last_search_time := clock e (Suc (length (trace w))),
                trace := trace w @
                 [EvTime (clock e (length (trace w))),
                  EvTime (clock e (Suc (length (trace w)))),
                  EvScrape ((tool_criteria ti st)\<lparr>property_type :=
                              normalize_property_types (k_property_type ti)\<rparr>)
                    (scrape_property e (length (trace w) + 2)
                       ((tool_criteria ti st)\<lparr>property_type :=
                              normalize_property_types (k_property_type ti)\<rparr>))]\<rparr>"
    using fetch_listings_world [of e "tool_criteria ti st" ?w3] f
    by (simp add: tool_criteria_def)
  show ?thesis
    using assms f w4
    by (simp add: execute_tool_def time_time_def log_def SEARCH_COOLDOWN_SECONDS_def Let_def
          search_failed_def status_def search_success_def
        split: sum.splits prod.splits)
qed

text \<open>
  C2. When the run state holds no result set, or an empty one, \<^verbatim>\<open>create_sheet\<close>
  answers with status \<^verbatim>\<open>error\<close>; the export collaborator is not called (the trace, like
  the rest of the process state, is as before) and the run state, with its sheet URL, is
  unchanged.
\<close>

theorem create_sheet_requires_results:
  assumes "df st = None \<or> empty (the (df st))"
  shows "\<exists>d. execute_tool e ''create_sheet'' ti st w = (d, st, w)
             \<and> status d = Some (JStr ''error'')"
  using create_sheet_no_data [OF assms] by (simp add: status_def no_data_def)

theorem create_sheet_requires_results_witness:
  "\<exists>d. execute_tool example_env ''create_sheet'' no_criteria
          ((initial_state rental ''u'')\<lparr>df := Some \<lparr>columns = [''Price ($)''], rows = []\<rparr>\<rparr>)
          fresh_world
        = (d, (initial_state rental ''u'')\<lparr>df := Some \<lparr>columns = [''Price ($)''], rows = []\<rparr>\<rparr>,
           fresh_world)
      \<and> status d = Some (JStr ''error'')"
  by (rule create_sheet_requires_results) (simp add: initial_state_def empty_def)

text \<open>
  C1. Two \<^verbatim>\<open>search_listings\<close> calls anywhere in the process, for any two run states.
  The first call proceeds (it is not rate limited), in a process whose clock readings are
  positive, as Unix time is: it stamps the global timestamp with a clock reading taken
  before the call to the listings collaborator, which is the last event of the call.
  The second call starts in any later state of the process in which the timestamp is
  still the one the first call set. If it begins less than 8 seconds after that
  timestamp, it answers \<^verbatim>\<open>rate_limited\<close> with the remaining wait in its message, calls no
  collaborator (it only reads the clock), and leaves the timestamp, the sessions and the
  run state as they were. If it begins 8 seconds or more after the timestamp, it
  proceeds as the first did: it stamps the timestamp and then calls the collaborator.
\<close>

theorem search_cooldown:
  assumes clock_positive: "\<forall>i. 0 < clock e i"
      and first: "execute_tool e ''search_listings'' ti1 st1 w0 = (d1, st1', w1)"
      and proceeded: "status d1 \<noteq> Some (JStr ''rate_limited'')"
      and still_set: "last_search_time w2 = last_search_time w1"
  shows "(last_search_time w1 = clock e (Suc (length (trace w0))) \<and>
          (\<exists>args r. trace w1 = trace w0 @ [EvTime (clock e (length (trace w0))),
                                             EvTime (last_search_time w1), EvScrape args r]))
       \<and> (clock e (length (trace w2)) - last_search_time w1 < 8 \<longrightarrow>
            (\<exists>d2. execute_tool e ''search_listings'' ti2 st2 w2 =
                     (d2, st2, w2\<lparr>trace := trace w2 @ [EvTime (clock e (length (trace w2)))]\<rparr>)
                 \<and> status d2 = Some (JStr ''rate_limited'')
                 \<and> map_of d2 ''message'' = Some (JStr (''Please wait '' @
                      str_float e (round1 (8 - (clock e (length (trace w2)) - last_search_time w1))) @
                      ''s before searching again.''))))
       \<and> (8 \<le> clock e (length (trace w2)) - last_search_time w1 \<longrightarrow>
            (\<exists>d2 st2' w2' args r.
                 execute_tool e ''search_listings'' ti2 st2 w2 = (d2, st2', w2')
               \<and> status d2 \<noteq> Some (JStr ''rate_limited'')
               \<and> last_search_time w2' = clock e (Suc (length (trace w2)))
               \<and> trace w2' = trace w2 @ [EvTime (clock e (length (trace w2))),
                                          EvTime (last_search_time w2'), EvScrape args r]))"
proof -
  have open1: "\<not> (0 < last_search_time w0 \<and> clock e (length (trace w0)) - last_search_time w0 < 8)"
  proof
    assume "0 < last_search_time w0 \<and> clock e (length (trace w0)) - last_search_time w0 < 8"
    then have "status d1 = Some (JStr ''rate_limited'')"
      using search_rate_limited [of w0 e ti1 st1] first by (auto simp: status_def)
    with proceeded show False by simp
  qed
  from search_proceeds [OF open1, of ti1 st1] first
  have stamp: "last_search_time w1 = clock e (Suc (length (trace w0)))"
    and tr: "\<exists>args r. trace w1 = trace w0 @ [EvTime (clock e (length (trace w0))),
                                             EvTime (last_search_time w1), EvScrape args r]"
    by auto
  have pos: "0 < last_search_time w2"
    using stamp still_set clock_positive by simp
  have limited: "clock e (length (trace w2)) - last_search_time w1 < 8 \<longrightarrow>
            (\<exists>d2. execute_tool e ''search_listings'' ti2 st2 w2 =
                     (d2, st2, w2\<lparr>trace := trace w2 @ [EvTime (clock e (length (trace w2)))]\<rparr>)
                 \<and> status d2 = Some (JStr ''rate_limited'')
                 \<and> map_of d2 ''message'' = Some (JStr (''Please wait '' @
                      str_float e (round1 (8 - (clock e (length (trace w2)) - last_search_time w1))) @
                      ''s before searching again.'')))"
    using search_rate_limited [OF pos, of e ti2 st2] still_set by (simp add: status_def)
  have passes: "8 \<le> clock e (length (trace w2)) - last_search_time w1 \<longrightarrow>
            (\<exists>d2 st2' w2' args r.
                 execute_tool e ''search_listings'' ti2 st2 w2 = (d2, st2', w2')
               \<and> status d2 \<noteq> Some (JStr ''rate_limited'')
               \<and> last_search_time w2' = clock e (Suc (length (trace w2)))
               \<and> trace w2' = trace w2 @ [EvTime (clock e (length (trace w2))),
                                          EvTime (last_search_time w2'), EvScrape args r])"
  proof
    assume "8 \<le> clock e (length (trace w2)) - last_search_time w1"
    then have open2: "\<not> (0 < last_search_time w2 \<and>
                          clock e (length (trace w2)) - last_search_time w2 < 8)"
      using still_set by simp
    from search_proceeds [OF open2, of ti2 st2]
    obtain d2 st2' where
      run: "execute_tool e ''search_listings'' ti2 st2 w2 =
             (d2, st2',
              w2\<lparr>last_search_time := clock e (Suc (length (trace w2))),
                trace := trace w2 @
                 [EvTime (clock e (length (trace w2))),
                  EvTime (clock e (Suc (length (trace w2)))),
                  EvScrape ((tool_criteria ti2 st2)\<lparr>property_type :=
                              normalize_property_types (k_property_type ti2)\<rparr>)
                    (scrape_property e (length (trace w2) + 2)
                       ((tool_criteria ti2 st2)\<lparr>property_type :=
                              normalize_property_types (k_property_type ti2)\<rparr>))]\<rparr>)"
      and st: "status d2 \<in> {Some (JStr ''error''), Some (JStr ''no_results''),
                          Some (JStr ''success'')}"
      by blast
    from st have "status d2 \<noteq> Some (JStr ''rate_limited'')" by auto
    with run show "\<exists>d2 st2' w2' args r.
                 execute_tool e ''search_listings'' ti2 st2 w2 = (d2, st2', w2')
               \<and> status d2 \<noteq> Some (JStr ''rate_limited'')
               \<and> last_search_time w2' = clock e (Suc (length (trace w2)))
               \<and> trace w2' = trace w2 @ [EvTime (clock e (length (trace w2))),
                                          EvTime (last_search_time w2'), EvScrape args r]"
      by fastforce
  qed
  from stamp tr limited passes show ?thesis by blast
qed

theorem search_cooldown_witness:
  "last_search_time (snd (snd (execute_tool example_env ''search_listings'' no_criteria
                                 (initial_state rental ''u'') fresh_world))) = 1001
   \<and> clock example_env (length (trace (snd (snd (execute_tool example_env ''search_listings''
                                 no_criteria (initial_state rental ''u'') fresh_world))))) = 1003
   \<and> (\<exists>d2. execute_tool example_env ''search_listings'' no_criteria (initial_state rental ''v'')
            (snd (snd (execute_tool example_env ''search_listings'' no_criteria
                         (initial_state rental ''u'') fresh_world)))
          = (d2, initial_state rental ''v'',
             (snd (snd (execute_tool example_env ''search_listings'' no_criteria
                          (initial_state rental ''u'') fresh_world)))
             \<lparr>trace := trace (snd (snd (execute_tool example_env ''search_listings'' no_criteria
                                          (initial_state rental ''u'') fresh_world)))
                       @ [EvTime 1003]\<rparr>)
        \<and> status d2 = Some (JStr ''rate_limited''))
   \<and> (\<exists>d2 st2' w2'.
          execute_tool example_env ''search_listings'' no_criteria (initial_state rental ''v'')
            ((snd (snd (execute_tool example_env ''search_listings'' no_criteria
                          (initial_state rental ''u'') fresh_world)))
             \<lparr>trace := replicate 12 (EvTime 0)\<rparr>)
          = (d2, st2', w2')
        \<and> status d2 \<noteq> Some (JStr ''rate_limited'')
        \<and> last_search_time w2' = 1013)"
proof -
  let ?first = "execute_tool example_env ''search_listings'' no_criteria
                  (initial_state rental ''u'') fresh_world"
  let ?w1 = "snd (snd ?first)"
  let ?w2 = "?w1\<lparr>trace := replicate 12 (EvTime 0)\<rparr>"
  have pos: "\<forall>i. 0 < clock example_env i"
    by (simp add: example_env_def)
  have first: "?first = (fst ?first, fst (snd ?first), ?w1)"
    by simp
  have proceeded: "status (fst ?first) \<noteq> Some (JStr ''rate_limited'')"
    by code_simp
  have stamped: "last_search_time ?w1 = 1001"
    by code_simp
  have now2: "clock example_env (length (trace ?w1)) = 1003"
    by code_simp
  have near: "clock example_env (length (trace ?w1)) - last_search_time ?w1 < 8"
    by code_simp
  have far: "8 \<le> clock example_env (length (trace ?w2)) - last_search_time ?w1"
    by code_simp
  have stamp2: "clock example_env (Suc (length (trace ?w2))) = 1013"
    by (simp add: example_env_def)
  note near_case = search_cooldown [OF pos first proceeded refl,
      of no_criteria "initial_state rental ''v''"]
  note far_case = search_cooldown [OF pos first proceeded, of ?w2 no_criteria
      "initial_state rental ''v''"]
  from near_case near obtain d2 where
    "execute_tool example_env ''search_listings'' no_criteria (initial_state rental ''v'') ?w1
       = (d2, initial_state rental ''v'',
          ?w1\<lparr>trace := trace ?w1 @ [EvTime (clock example_env (length (trace ?w1)))]\<rparr>)"
    "status d2 = Some (JStr ''rate_limited'')"
    by blast
  then have A:
    "\<exists>d2. execute_tool example_env ''search_listings'' no_criteria (initial_state rental ''v'') ?w1
          = (d2, initial_state rental ''v'', ?w1\<lparr>trace := trace ?w1 @ [EvTime 1003]\<rparr>)
        \<and> status d2 = Some (JStr ''rate_limited'')"
    unfolding now2 by blast
  have same: "last_search_time ?w2 = last_search_time ?w1"
    by simp
  from far_case [OF same] far obtain d2 st2' w2' where
    "execute_tool example_env ''search_listings'' no_criteria (initial_state rental ''v'') ?w2
       = (d2, st2', w2')"
    "status d2 \<noteq> Some (JStr ''rate_limited'')"
    "last_search_time w2' = clock example_env (Suc (length (trace ?w2)))"
    by blast
  then have B:
    "\<exists>d2 st2' w2'.
          execute_tool example_env ''search_listings'' no_criteria (initial_state rental ''v'') ?w2
          = (d2, st2', w2')
        \<and> status d2 \<noteq> Some (JStr ''rate_limited'')
        \<and> last_search_time w2' = 1013"
    unfolding stamp2 by blast
  from stamped now2 A B show ?thesis by blast
qed

text \<open>
  C8. When \<^verbatim>\<open>search_listings\<close> passes the rate gate, the criteria stored in
  the run state and handed to the listings collaborator (with the property types
  normalized) are built from the tool input alone, except for the location: a field
  that the tool input supplies is taken from it; a location that is not supplied falls
  back to the run's current criteria (or is empty when there is none); a listing type
  that is not supplied is \<^verbatim>\<open>for_sale\<close>, a recency window that is not supplied is 30 days,
  and every other field that is not supplied is absent.
\<close>

theorem search_criteria_from_tool_input:
  assumes "\<not> (0 < last_search_time w \<and> clock e (length (trace w)) - last_search_time w < 8)"
  shows "\<exists>d st' w' si r.
           execute_tool e ''search_listings'' ti st w = (d, st', w')
         \<and> search st' = Some si
         \<and> last (trace w') =
             EvScrape (si\<lparr>property_type := normalize_property_types (property_type si)\<rparr>) r
         \<and> location si =
             (case k_location ti of
                Some v \<Rightarrow> v
              | None \<Rightarrow> (case search st of Some cur \<Rightarrow> location cur | None \<Rightarrow> []))
         \<and> listing_type si = (case k_listing_type ti of Some v \<Rightarrow> v | None \<Rightarrow> ''for_sale'')
         \<and> min_price si = k_min_price ti
         \<and> max_price si = k_max_price ti
         \<and> min_beds si = k_min_beds ti
         \<and> max_beds si = k_max_beds ti
         \<and> min_sqft si = k_min_sqft ti
         \<and> max_sqft si = k_max_sqft ti
         \<and> property_type si = k_property_type ti
         \<and> past_days si = (case k_past_days ti of Some v \<Rightarrow> v | None \<Rightarrow> 30)"
proof -
  from search_proceeds [OF assms, of ti st]
  obtain d st' where
    run: "execute_tool e ''search_listings'' ti st w =
             (d, st',
              w\<lparr>last_search_time := clock e (Suc (length (trace w))),
                trace := trace w @
                 [EvTime (clock e (length (trace w))),
                  EvTime (clock e (Suc (length (trace w)))),
                  EvScrape ((tool_criteria ti st)\<lparr>property_type :=
                              normalize_property_types (k_property_type ti)\<rparr>)
                    (scrape_property e (length (trace w) + 2)
                       ((tool_criteria ti st)\<lparr>property_type :=
                              normalize_property_types (k_property_type ti)\<rparr>))]\<rparr>)"
    and stored: "search st' = Some (tool_criteria ti st)"
    by blast
  have fields:
    "location (tool_criteria ti st) =
       (case k_location ti of
          Some v \<Rightarrow> v
        | None \<Rightarrow> (case search st of Some cur \<Rightarrow> location cur | None \<Rightarrow> []))"
    "listing_type (tool_criteria ti st) =
       (case k_listing_type ti of Some v \<Rightarrow> v | None \<Rightarrow> ''for_sale'')"
    "past_days (tool_criteria ti st) = (case k_past_days ti of Some v \<Rightarrow> v | None \<Rightarrow> 30)"
    "property_type (tool_criteria ti st) = k_property_type ti"
    by (simp_all add: tool_criteria_def get_or_def split: option.splits)
  have rest:
    "min_price (tool_criteria ti st) = k_min_price ti"
    "max_price (tool_criteria ti st) = k_max_price ti"
    "min_beds (tool_criteria ti st) = k_min_beds ti"
    "max_beds (tool_criteria ti st) = k_max_beds ti"
    "min_sqft (tool_criteria ti st) = k_min_sqft ti"
    "max_sqft (tool_criteria ti st) = k_max_sqft ti"
    by (simp_all add: tool_criteria_def)
  show ?thesis
    apply (rule exI [of _ d], rule exI [of _ st'])
    apply (rule exI [of _ "w\<lparr>last_search_time := clock e (Suc (length (trace w))),
                trace := trace w @
                 [EvTime (clock e (length (trace w))),
                  EvTime (clock e (Suc (length (trace w)))),
                  EvScrape ((tool_criteria ti st)\<lparr>property_type :=
                              normalize_property_types (k_property_type ti)\<rparr>)
                    (scrape_property e (length (trace w) + 2)
                       ((tool_criteria ti st)\<lparr>property_type :=
                              normalize_property_types (k_property_type ti)\<rparr>))]\<rparr>"])
    apply (rule exI [of _ "tool_criteria ti st"])
    apply (rule exI [of _ "scrape_property e (length (trace w) + 2)
                       ((tool_criteria ti st)\<lparr>property_type :=
                              normalize_property_types (k_property_type ti)\<rparr>)"])
    using run stored fields rest apply simp
    done
qed

theorem search_criteria_from_tool_input_witness:
  "\<exists>d st' w' si r.
     execute_tool example_env ''search_listings'' (no_criteria\<lparr>k_max_price := Some 600000\<rparr>)
       (initial_state rental ''u'') fresh_world = (d, st', w')
   \<and> search st' = Some si
   \<and> last (trace w') = EvScrape si r
   \<and> location si = ''San Diego, CA''
   \<and> listing_type si = ''for_sale''
   \<and> max_price si = Some 600000
   \<and> min_beds si = None
   \<and> past_days si = 30"
proof -
  have gate: "\<not> (0 < last_search_time fresh_world \<and>
                 clock example_env (length (trace fresh_world)) - last_search_time fresh_world < 8)"
    by (simp add: fresh_world_def)
  from search_criteria_from_tool_input [OF gate, of "no_criteria\<lparr>k_max_price := Some 600000\<rparr>"
      "initial_state rental ''u''"]
  obtain d st' w' si r where
    "execute_tool example_env ''search_listings'' (no_criteria\<lparr>k_max_price := Some 600000\<rparr>)
       (initial_state rental ''u'') fresh_world = (d, st', w')"
    "search st' = Some si"
    "last (trace w') =
       EvScrape (si\<lparr>property_type := normalize_property_types (property_type si)\<rparr>) r"
    "location si = ''San Diego, CA''"
    "listing_type si = ''for_sale''"
    "max_price si = Some 600000"
    "min_beds si = None"
    "property_type si = None"
    "past_days si = 30"
    by (auto simp: no_criteria_def initial_state_def rental_def)
  then show ?thesis
    by (auto simp: normalize_property_types_def)
qed

theorem merge_fallback_counterexample:
  "status (fst (execute_tool example_env ''search_listings'' no_criteria
                  (initial_state rental ''u'') fresh_world)) = Some (JStr ''success'')
   \<and> search (fst (snd (execute_tool example_env ''search_listings'' no_criteria
                         (initial_state rental ''u'') fresh_world)))
       \<noteq> Some (spec_merge no_criteria rental)
   \<and> listing_type (spec_merge no_criteria rental) = ''for_rent''
   \<and> min_beds (spec_merge no_criteria rental) = Some 2
   \<and> map_option listing_type
       (search (fst (snd (execute_tool example_env ''search_listings'' no_criteria
                            (initial_state rental ''u'') fresh_world)))) = Some ''for_sale''
   \<and> map_option min_beds
       (search (fst (snd (execute_tool example_env ''search_listings'' no_criteria
                            (initial_state rental ''u'') fresh_world)))) = Some None"
  by code_simp

section \<open>What a run leaves in the process state\<close>

lemma planner_calls_append [simp]:
  "planner_calls (xs @ ys) = planner_calls xs + planner_calls ys"
  by (simp add: planner_calls_def)

lemma planner_replies_append [simp]:
  "planner_replies (xs @ ys) = planner_replies xs @ planner_replies ys"
  by (simp add: planner_replies_def)

lemma tool_events_no_planner:
  "list_all tool_event tr \<Longrightarrow> planner_calls tr = 0 \<and> planner_replies tr = []"
proof (induction tr)
  case Nil
  then show ?case by (simp add: planner_calls_def planner_replies_def)
next
  case (Cons ev tr)
  then show ?case by (cases ev) (simp_all add: planner_calls_def planner_replies_def)
qed

lemma execute_tool_frame:
  "\<exists>new. trace (snd (snd (execute_tool e n inp st w))) = trace w @ new
         \<and> list_all tool_event new
         \<and> sessions (snd (snd (execute_tool e n inp st w))) = sessions w"
proof (cases "n = ''search_listings''")
  case True
  show ?thesis
  proof (cases "0 < last_search_time w \<and> clock e (length (trace w)) - last_search_time w < 8")
    case gate: True
    then show ?thesis
      using search_rate_limited [of w e inp st] True by simp
  next
    case False
    from search_proceeds [OF False, of inp st] True show ?thesis
      by auto
  qed
next
  case False
  then show ?thesis
    by (auto simp: execute_tool_def log_def Let_def split: option.splits sum.splits exn.splits)
qed

lemma run_tools_frame:
  "\<exists>new. trace (snd (snd (run_tools e bs st w))) = trace w @ new
         \<and> list_all tool_event new
         \<and> sessions (snd (snd (run_tools e bs st w))) = sessions w"
proof (induction e bs st w rule: run_tools.induct)
  case (2 e i n inp bs st w)
  obtain d st1 w1 where ex: "execute_tool e n inp st w = (d, st1, w1)"
    by (cases "execute_tool e n inp st w") auto
  obtain rs st2 w2 where rt: "run_tools e bs st1 w1 = (rs, st2, w2)"
    by (cases "run_tools e bs st1 w1") auto
  from execute_tool_frame [of e n inp st w] ex
  obtain new1 where n1: "trace w1 = trace w @ new1" "list_all tool_event new1"
      "sessions w1 = sessions w"
    by auto
  from "2.IH" [OF ex [symmetric] refl] rt
  obtain new2 where n2: "trace w2 = trace w1 @ new2" "list_all tool_event new2"
      "sessions w2 = sessions w1"
    by auto
  have "trace w2 = trace w @ (new1 @ new2)" "list_all tool_event (new1 @ new2)"
       "sessions w2 = sessions w"
    using n1 n2 by simp_all
  then show ?case using ex rt by (simp del: append_assoc)
qed simp_all

lemma run_tools_ids:
  "map tool_use_id (fst (run_tools e bs st w)) = tool_use_ids bs"
  by (induction e bs st w rule: run_tools.induct) (auto split: prod.splits)

lemma planner_calls_planner [simp]:
  "planner_calls (EvPlanner ms r # tr) = Suc (planner_calls tr)"
  by (simp add: planner_calls_def)

lemma planner_replies_planner [simp]:
  "planner_replies (EvPlanner ms (Inr rsp) # tr) = rsp # planner_replies tr"
  by (simp add: planner_replies_def)

lemma planner_nil [simp]:
  "planner_calls [] = 0" "planner_replies [] = []"
  by (simp_all add: planner_calls_def planner_replies_def)

lemma agent_loop_frame:
  "\<exists>new. trace (snd (agent_loop e n ms st w)) = trace w @ new
         \<and> planner_calls new \<le> n
         \<and> sessions (snd (agent_loop e n ms st w)) = sessions w"
proof (induction n arbitrary: ms st w)
  case 0
  then show ?case by (simp add: planner_calls_def)
next
  case (Suc n)
  let ?r = "messages_create e (length (trace w)) ms"
  let ?w1 = "log (EvPlanner ms ?r) w"
  have w1: "trace ?w1 = trace w @ [EvPlanner ms ?r]" "sessions ?w1 = sessions w"
    by (simp_all add: log_def)
  have one: "planner_calls [EvPlanner ms ?r] = 1"
    by simp
  show ?case
  proof (cases ?r)
    case (Inl ex)
    then show ?thesis using w1 one by (simp add: Let_def)
  next
    case (Inr rsp)
    show ?thesis
    proof (cases "stop_reason rsp = ''tool_use'' \<and> stop_reason rsp \<noteq> ''end_turn''")
      case False
      then show ?thesis using Inr w1 one by (auto simp: Let_def)
    next
      case True
      obtain trs st2 w2 where rt: "run_tools e (resp_content rsp) st ?w1 = (trs, st2, w2)"
        by (cases "run_tools e (resp_content rsp) st ?w1") auto
      from run_tools_frame [of e "resp_content rsp" st ?w1] rt
      obtain new1 where n1: "trace w2 = trace ?w1 @ new1" "list_all tool_event new1"
          "sessions w2 = sessions ?w1"
        by auto
      let ?ms2 = "ms @ [Message ''assistant'' (Blocks (resp_content rsp))] @
                  [Message ''user'' (ToolResults trs)]"
      from Suc.IH [of ?ms2 st2 w2]
      obtain new2 where n2: "trace (snd (agent_loop e n ?ms2 st2 w2)) = trace w2 @ new2"
          "planner_calls new2 \<le> n"
          "sessions (snd (agent_loop e n ?ms2 st2 w2)) = sessions w2"
        by auto
      have step: "agent_loop e (Suc n) ms st w = agent_loop e n ?ms2 st2 w2"
        using Inr True rt by (simp add: Let_def)
      have "trace (snd (agent_loop e (Suc n) ms st w)) =
              trace w @ ([EvPlanner ms ?r] @ new1 @ new2)"
        using step n1 n2 w1 by simp
      moreover have "planner_calls ([EvPlanner ms ?r] @ new1 @ new2) \<le> Suc n"
        using n2 tool_events_no_planner [OF n1(2)] by simp
      moreover have "sessions (snd (agent_loop e (Suc n) ms st w)) = sessions w"
        using step n1 n2 w1 by simp
      ultimately show ?thesis by blast
    qed
  qed
qed

lemma agent_loop_conversation:
  "agent_loop e n ms st w = (Inr (ms', fs, st'), w') \<Longrightarrow>
   \<exists>ext new. ms' = ms @ ext \<and> trace w' = trace w @ new
     \<and> length (planner_replies new) = planner_calls new
     \<and> fs = final_text (planner_replies new)
     \<and> turns_ok ext
     \<and> planner_turns ext = map resp_content (planner_replies new)
     \<and> length (tool_result_turns ext) =
         length (filter (\<lambda>rsp. stop_reason rsp = ''tool_use'') (planner_replies new))"
proof (induction n arbitrary: ms st w)
  case 0
  then show ?case
    by (simp add: planner_calls_def planner_replies_def planner_turns_def
        tool_result_turns_def final_text_def)
next
  case (Suc n)
  let ?r = "messages_create e (length (trace w)) ms"
  let ?w1 = "log (EvPlanner ms ?r) w"
  have w1: "trace ?w1 = trace w @ [EvPlanner ms ?r]"
    by (simp add: log_def)
  show ?case
  proof (cases ?r)
    case (Inl ex)
    with Suc.prems show ?thesis by (simp add: Let_def)
  next
    case (Inr rsp)
    let ?a = "Message ''assistant'' (Blocks (resp_content rsp))"
    have one: "planner_calls [EvPlanner ms ?r] = 1" "planner_replies [EvPlanner ms ?r] = [rsp]"
      using Inr by simp_all
    show ?thesis
    proof (cases "stop_reason rsp = ''end_turn''")
      case True
      with Suc.prems Inr have res: "ms' = ms @ [?a]" "fs = last_text (resp_content rsp) []"
          "w' = ?w1"
        by (simp_all add: Let_def)
      have "ms' = ms @ [?a] \<and> trace w' = trace w @ [EvPlanner ms ?r]
            \<and> length (planner_replies [EvPlanner ms ?r]) = planner_calls [EvPlanner ms ?r]
            \<and> fs = final_text (planner_replies [EvPlanner ms ?r])
            \<and> turns_ok [?a]
            \<and> planner_turns [?a] = map resp_content (planner_replies [EvPlanner ms ?r])
            \<and> length (tool_result_turns [?a]) =
                length (filter (\<lambda>rsp. stop_reason rsp = ''tool_use'')
                          (planner_replies [EvPlanner ms ?r]))"
        using res w1 one True
        by (simp add: planner_turns_def tool_result_turns_def final_text_def)
      then show ?thesis by blast
    next
      case not_end: False
      show ?thesis
      proof (cases "stop_reason rsp = ''tool_use''")
        case False
        with Suc.prems Inr not_end have res: "ms' = ms @ [?a]" "fs = []" "w' = ?w1"
          by (simp_all add: Let_def)
        have "ms' = ms @ [?a] \<and> trace w' = trace w @ [EvPlanner ms ?r]
              \<and> length (planner_replies [EvPlanner ms ?r]) = planner_calls [EvPlanner ms ?r]
              \<and> fs = final_text (planner_replies [EvPlanner ms ?r])
              \<and> turns_ok [?a]
              \<and> planner_turns [?a] = map resp_content (planner_replies [EvPlanner ms ?r])
              \<and> length (tool_result_turns [?a]) =
                  length (filter (\<lambda>rsp. stop_reason rsp = ''tool_use'')
                            (planner_replies [EvPlanner ms ?r]))"
          using res w1 one False not_end
          by (simp add: planner_turns_def tool_result_turns_def final_text_def)
        then show ?thesis by blast
      next
        case True
        obtain trs st2 w2 where rt: "run_tools e (resp_content rsp) st ?w1 = (trs, st2, w2)"
          by (cases "run_tools e (resp_content rsp) st ?w1") auto
        from run_tools_frame [of e "resp_content rsp" st ?w1] rt
        obtain new1 where n1: "trace w2 = trace ?w1 @ new1" "list_all tool_event new1"
          by auto
        have ids: "map tool_use_id trs = tool_use_ids (resp_content rsp)"
          using run_tools_ids [of e "resp_content rsp" st ?w1] rt by simp
        let ?t = "Message ''user'' (ToolResults trs)"
        let ?ms2 = "ms @ [?a] @ [?t]"
        have step: "agent_loop e (Suc n) ms st w = agent_loop e n ?ms2 st2 w2"
          using Inr True not_end rt by (simp add: Let_def)
        from Suc.IH [of ?ms2 st2 w2] Suc.prems step
        obtain ext new2 where ih: "ms' = ?ms2 @ ext" "trace w' = trace w2 @ new2"
            "length (planner_replies new2) = planner_calls new2"
            "fs = final_text (planner_replies new2)"
            "turns_ok ext"
            "planner_turns ext = map resp_content (planner_replies new2)"
            "length (tool_result_turns ext) =
               length (filter (\<lambda>rsp. stop_reason rsp = ''tool_use'') (planner_replies new2))"
          by auto
        let ?new = "[EvPlanner ms ?r] @ new1 @ new2"
        have quiet: "planner_calls new1 = 0" "planner_replies new1 = []"
          using tool_events_no_planner [OF n1(2)] by simp_all
        have replies: "planner_replies ?new = rsp # planner_replies new2"
          using Inr quiet by simp
        have ft: "final_text (rsp # planner_replies new2) = final_text (planner_replies new2)"
          using not_end by (simp add: final_text_def)
        have "ms' = ms @ (?a # ?t # ext)" "trace w' = trace w @ ?new"
          using ih w1 n1 by simp_all
        moreover have "length (planner_replies ?new) = planner_calls ?new"
          using Inr quiet ih(3) by simp
        moreover have "fs = final_text (planner_replies ?new)"
          using ih(4) replies ft by simp
        moreover have "turns_ok (?a # ?t # ext)"
          using ih(5) ids by simp
        moreover have "planner_turns (?a # ?t # ext) = map resp_content (planner_replies ?new)"
          using ih(6) replies by (simp add: planner_turns_def)
        moreover have "length (tool_result_turns (?a # ?t # ext)) =
               length (filter (\<lambda>rsp. stop_reason rsp = ''tool_use'') (planner_replies ?new))"
          using ih(7) replies True by (simp add: tool_result_turns_def)
        ultimately show ?thesis by blast
      qed
    qed
  qed
qed

section \<open>The agent loop\<close>

lemma run_agent_loop_returns:
  assumes "run_agent_loop e si uid prior w = (Inr res, w')"
  shows "\<exists>ms' fs st' w1.
           agent_loop e 8 (get_or prior [] @ [Message ''user'' (Text (user_prompt si))])
             (initial_state si uid) w = (Inr (ms', fs, st'), w1)
         \<and> w' = w1\<lparr>sessions := (sessions w1)(uid \<mapsto> ms')\<rparr>
         \<and> res = \<lparr>wr_sheet_url = sheet_url st',
                   summary = (if fs = [] then fallback_summary si st' else fs),
                   wr_num_results = num_results st',
                   session_id = Some uid\<rparr>"
proof -
  let ?loop = "agent_loop e 8 (get_or prior [] @ [Message ''user'' (Text (user_prompt si))])
                 (initial_state si uid) w"
  obtain r w1 where l: "?loop = (r, w1)"
    by (cases ?loop) auto
  show ?thesis
  proof (cases r)
    case (Inl ex)
    with l assms show ?thesis
      by (simp add: run_agent_loop_def max_iterations_def Let_def)
  next
    case (Inr t)
    obtain ms' fs st' where t: "t = (ms', fs, st')"
      by (cases t) auto
    from l Inr t assms show ?thesis
      by (simp add: run_agent_loop_def max_iterations_def Let_def)
  qed
qed

lemma run_agent_loop_raises:
  assumes "run_agent_loop e si uid prior w = (Inl ex, w')"
  shows "agent_loop e 8 (get_or prior [] @ [Message ''user'' (Text (user_prompt si))])
           (initial_state si uid) w = (Inl ex, w')"
  using assms
  by (auto simp: run_agent_loop_def max_iterations_def Let_def split: prod.splits sum.splits)

lemma run_agent_loop_frame:
  "\<exists>new. trace (snd (run_agent_loop e si uid prior w)) = trace w @ new \<and> planner_calls new \<le> 8"
proof -
  let ?ms = "get_or prior [] @ [Message ''user'' (Text (user_prompt si))]"
  from agent_loop_frame [of e 8 ?ms "initial_state si uid" w]
  obtain new where "trace (snd (agent_loop e 8 ?ms (initial_state si uid) w)) = trace w @ new"
      "planner_calls new \<le> 8"
    by blast
  then show ?thesis
    by (auto simp: run_agent_loop_def max_iterations_def Let_def split: prod.splits sum.splits)
qed


lemma agent_loop_raised:
  "agent_loop e n ms st w = (Inl ex, w') \<Longrightarrow>
   \<exists>before ms0. trace w' = before @ [EvPlanner ms0 (Inl ex)]"
proof (induction n arbitrary: ms st w)
  case 0
  then show ?case by simp
next
  case (Suc n)
  let ?r = "messages_create e (length (trace w)) ms"
  let ?w1 = "log (EvPlanner ms ?r) w"
  show ?case
  proof (cases ?r)
    case (Inl ex')
    with Suc.prems have "ex' = ex" "w' = ?w1"
      by (auto simp: Let_def)
    with Inl have "trace w' = trace w @ [EvPlanner ms (Inl ex)]"
      by (simp add: log_def)
    then show ?thesis by blast
  next
    case (Inr rsp)
    show ?thesis
    proof (cases "stop_reason rsp = ''tool_use'' \<and> stop_reason rsp \<noteq> ''end_turn''")
      case False
      with Suc.prems Inr show ?thesis by (auto simp: Let_def split: if_splits)
    next
      case True
      obtain trs st2 w2 where rt: "run_tools e (resp_content rsp) st ?w1 = (trs, st2, w2)"
        by (cases "run_tools e (resp_content rsp) st ?w1") auto
      let ?ms2 = "ms @ [Message ''assistant'' (Blocks (resp_content rsp))] @
                  [Message ''user'' (ToolResults trs)]"
      have step: "agent_loop e (Suc n) ms st w = agent_loop e n ?ms2 st2 w2"
        using Inr True rt by (simp add: Let_def)
      from Suc.IH [of ?ms2 st2 w2] Suc.prems step show ?thesis by simp
    qed
  qed
qed

lemma session_saved:
  assumes "run_agent_loop e si uid prior w = (Inr res, w')"
  shows "\<exists>ext new.
           sessions w' =
             (sessions w)(uid \<mapsto>
                get_or prior [] @ [Message ''user'' (Text (user_prompt si))] @ ext)
         \<and> trace w' = trace w @ new
         \<and> length (planner_replies new) = planner_calls new
         \<and> planner_turns ext = map resp_content (planner_replies new)
         \<and> turns_ok ext
         \<and> length (tool_result_turns ext) =
             length (filter (\<lambda>rsp. stop_reason rsp = ''tool_use'') (planner_replies new))"
proof -
  let ?seed = "get_or prior [] @ [Message ''user'' (Text (user_prompt si))]"
  from run_agent_loop_returns [OF assms]
  obtain ms' fs st' w1 where
    loop: "agent_loop e 8 ?seed (initial_state si uid) w = (Inr (ms', fs, st'), w1)"
    and w': "w' = w1\<lparr>sessions := (sessions w1)(uid \<mapsto> ms')\<rparr>"
    by blast
  from agent_loop_conversation [OF loop]
  obtain ext new where c: "ms' = ?seed @ ext" "trace w1 = trace w @ new"
      "length (planner_replies new) = planner_calls new"
      "turns_ok ext"
      "planner_turns ext = map resp_content (planner_replies new)"
      "length (tool_result_turns ext) =
         length (filter (\<lambda>rsp. stop_reason rsp = ''tool_use'') (planner_replies new))"
    by blast
  have s: "sessions w1 = sessions w"
    using agent_loop_frame [of e 8 ?seed "initial_state si uid" w] loop by auto
  have "sessions w' = (sessions w)(uid \<mapsto> get_or prior [] @
           [Message ''user'' (Text (user_prompt si))] @ ext)"
    using w' s c(1) by simp
  moreover have "trace w' = trace w @ new"
    using w' c(2) by simp
  ultimately show ?thesis using c(3-6) by blast
qed

text \<open>
  C9. A run of the agent loop returns unless a planner call raises, that is, whenever the
  loop is left by a final answer of the planner, by a stop reason the loop does not know,
  or by the iteration cap. When it returns, the session entry of the user is set to the
  conversation of the run, the other entries staying as they were: the seed turns, the
  instruction turn, and then the turns of the loop. These hold the content of every reply
  the planner gave in this run, in order, one planner turn per planner call; every
  planner turn is either the last turn or followed at once by one combined tool-result
  turn with a result for each of its tool calls; and there is one tool-result turn for
  every reply that asked for tools.
\<close>

theorem session_saved_on_exit:
  "(\<forall>res w'. run_agent_loop e si uid prior w = (Inr res, w') \<longrightarrow>
      (\<exists>ext new.
           sessions w' =
             (sessions w)(uid \<mapsto>
                get_or prior [] @ [Message ''user'' (Text (user_prompt si))] @ ext)
         \<and> trace w' = trace w @ new
         \<and> length (planner_replies new) = planner_calls new
         \<and> planner_turns ext = map resp_content (planner_replies new)
         \<and> turns_ok ext
         \<and> length (tool_result_turns ext) =
             length (filter (\<lambda>rsp. stop_reason rsp = ''tool_use'') (planner_replies new))))
   \<and> (\<forall>ex w'. run_agent_loop e si uid prior w = (Inl ex, w') \<longrightarrow>
        (\<exists>before ms0. trace w' = before @ [EvPlanner ms0 (Inl ex)]))"
proof -
  have raised: "\<exists>before ms0. trace w' = before @ [EvPlanner ms0 (Inl ex)]"
    if "run_agent_loop e si uid prior w = (Inl ex, w')" for ex w'
    using agent_loop_raised [OF run_agent_loop_raises [OF that]] .
  from session_saved raised show ?thesis by blast
qed

theorem session_saved_on_exit_witness:
  "(\<exists>ext new.
      sessions (snd (run_agent_loop example_env rental ''u'' None fresh_world)) =
        (sessions fresh_world)(''u'' \<mapsto>
           get_or None [] @ [Message ''user'' (Text (user_prompt rental))] @ ext)
    \<and> trace (snd (run_agent_loop example_env rental ''u'' None fresh_world)) =
        trace fresh_world @ new
    \<and> length (planner_replies new) = planner_calls new
    \<and> planner_turns ext = map resp_content (planner_replies new)
    \<and> turns_ok ext
    \<and> length (tool_result_turns ext) =
        length (filter (\<lambda>rsp. stop_reason rsp = ''tool_use'') (planner_replies new)))
   \<and> sessions (snd (run_agent_loop example_env rental ''u'' None fresh_world)) ''u'' =
       Some [Message ''user'' (Text (user_prompt rental)),
             Message ''assistant'' (Blocks [TextBlock ''Done.''])]
   \<and> map_option length
        (sessions (snd (run_agent_loop cut_off_env rental ''u'' None fresh_world)) ''u'') = Some 2
   \<and> map_option length
        (sessions (snd (run_agent_loop asking_env rental ''u'' None fresh_world)) ''u'') = Some 17"
proof -
  let ?run = "run_agent_loop example_env rental ''u'' None fresh_world"
  have "fst ?run = Inr \<lparr>wr_sheet_url = [], summary = ''Done.'', wr_num_results = 0,
                        session_id = Some ''u''\<rparr>"
    by code_simp
  then have ret: "?run = (Inr \<lparr>wr_sheet_url = [], summary = ''Done.'', wr_num_results = 0,
                              session_id = Some ''u''\<rparr>, snd ?run)"
    by (metis prod.collapse)
  have a: "sessions (snd ?run) ''u'' =
       Some [Message ''user'' (Text (user_prompt rental)),
             Message ''assistant'' (Blocks [TextBlock ''Done.''])]"
    by code_simp
  have b: "map_option length
        (sessions (snd (run_agent_loop cut_off_env rental ''u'' None fresh_world)) ''u'') = Some 2"
    by code_simp
  have c: "map_option length
        (sessions (snd (run_agent_loop asking_env rental ''u'' None fresh_world)) ''u'') = Some 17"
    by code_simp
  from session_saved_on_exit [of example_env rental "''u''" None fresh_world] ret a b c
  show ?thesis by blast
qed

lemma agent_loop_asking:
  assumes "\<forall>i ms. \<exists>rsp. messages_create e i ms = Inr rsp \<and> stop_reason rsp = ''tool_use''"
  shows "\<exists>ms' st' w' new.
           agent_loop e n ms st w = (Inr (ms', [], st'), w')
         \<and> trace w' = trace w @ new \<and> planner_calls new = n"
proof (induction n arbitrary: ms st w)
  case 0
  then show ?case by simp
next
  case (Suc n)
  from assms obtain rsp where
    r: "messages_create e (length (trace w)) ms = Inr rsp" "stop_reason rsp = ''tool_use''"
    by blast
  let ?w1 = "log (EvPlanner ms (Inr rsp)) w"
  obtain trs st2 w2 where rt: "run_tools e (resp_content rsp) st ?w1 = (trs, st2, w2)"
    by (cases "run_tools e (resp_content rsp) st ?w1") auto
  from run_tools_frame [of e "resp_content rsp" st ?w1] rt
  obtain new1 where n1: "trace w2 = trace ?w1 @ new1" "list_all tool_event new1"
    by auto
  let ?ms2 = "ms @ [Message ''assistant'' (Blocks (resp_content rsp))] @
              [Message ''user'' (ToolResults trs)]"
  have step: "agent_loop e (Suc n) ms st w = agent_loop e n ?ms2 st2 w2"
    using r rt by (simp add: Let_def)
  from Suc.IH [of ?ms2 st2 w2]
  obtain ms' st' w' new2 where ih: "agent_loop e n ?ms2 st2 w2 = (Inr (ms', [], st'), w')"
      "trace w' = trace w2 @ new2" "planner_calls new2 = n"
    by blast
  have "trace w' = trace w @ ([EvPlanner ms (Inr rsp)] @ new1 @ new2)"
    using ih(2) n1(1) by (simp add: log_def)
  moreover have "planner_calls ([EvPlanner ms (Inr rsp)] @ new1 @ new2) = Suc n"
    using ih(3) tool_events_no_planner [OF n1(2)] by simp
  ultimately show ?case using step ih(1) by metis
qed

text \<open>
  C6. A run of the agent loop calls the planner at most 8 times, whatever the planner
  and the tools answer. A run that returns after its planner calls without a final text
  answer, as one that used up all 8 turns with the last reply still not ending the
  turn, takes the synthesized fallback summary of the final run state. And when the
  planner asks for tools in every reply, the run does return, after exactly 8 planner
  calls.
\<close>

theorem planner_turns_capped:
  "(\<exists>new. trace (snd (run_agent_loop e si uid prior w)) = trace w @ new
          \<and> planner_calls new \<le> 8)
   \<and> (\<forall>res w' new.
         run_agent_loop e si uid prior w = (Inr res, w') \<and> trace w' = trace w @ new
         \<and> planner_calls new = 8 \<and> stop_reason (last (planner_replies new)) \<noteq> ''end_turn''
         \<longrightarrow> (\<exists>st'. summary res = fallback_summary si st'
                    \<and> wr_sheet_url res = sheet_url st'
                    \<and> wr_num_results res = num_results st'))
   \<and> ((\<forall>i ms. \<exists>rsp. messages_create e i ms = Inr rsp \<and> stop_reason rsp = ''tool_use'')
        \<longrightarrow> (\<exists>res w' new.
               run_agent_loop e si uid prior w = (Inr res, w') \<and> trace w' = trace w @ new
             \<and> planner_calls new = 8))"
proof -
  let ?seed = "get_or prior [] @ [Message ''user'' (Text (user_prompt si))]"
  have bound: "\<exists>new. trace (snd (run_agent_loop e si uid prior w)) = trace w @ new
                    \<and> planner_calls new \<le> 8"
    by (rule run_agent_loop_frame)
  have fallback: "\<exists>st'. summary res = fallback_summary si st'
                    \<and> wr_sheet_url res = sheet_url st'
                    \<and> wr_num_results res = num_results st'"
    if run: "run_agent_loop e si uid prior w = (Inr res, w')"
      and tr: "trace w' = trace w @ new"
      and cap: "stop_reason (last (planner_replies new)) \<noteq> ''end_turn''"
    for res w' new
  proof -
    from run_agent_loop_returns [OF run]
    obtain ms' fs st' w1 where
      loop: "agent_loop e 8 ?seed (initial_state si uid) w = (Inr (ms', fs, st'), w1)"
      and w': "w' = w1\<lparr>sessions := (sessions w1)(uid \<mapsto> ms')\<rparr>"
      and res: "res = \<lparr>wr_sheet_url = sheet_url st',
                   summary = (if fs = [] then fallback_summary si st' else fs),
                   wr_num_results = num_results st',
                   session_id = Some uid\<rparr>"
      by blast
    from agent_loop_conversation [OF loop]
    obtain new' where c: "trace w1 = trace w @ new'" "fs = final_text (planner_replies new')"
      by blast
    have "new' = new" using c(1) tr w' by simp
    then have "fs = []" using c(2) cap by (simp add: final_text_def)
    with res show ?thesis by auto
  qed
  have asking: "\<exists>res w' new.
               run_agent_loop e si uid prior w = (Inr res, w') \<and> trace w' = trace w @ new
             \<and> planner_calls new = 8"
    if a: "\<forall>i ms. \<exists>rsp. messages_create e i ms = Inr rsp \<and> stop_reason rsp = ''tool_use''"
  proof -
    from agent_loop_asking [OF a, of 8 ?seed "initial_state si uid" w]
    obtain ms' st' w1 new where
      loop: "agent_loop e 8 ?seed (initial_state si uid) w = (Inr (ms', [], st'), w1)"
      and tr: "trace w1 = trace w @ new" "planner_calls new = 8"
      by blast
    then show ?thesis
      by (simp add: run_agent_loop_def max_iterations_def Let_def)
  qed
  from bound fallback asking show ?thesis by blast
qed

theorem planner_turns_capped_witness:
  "\<exists>res w' new st'.
      run_agent_loop asking_env rental ''u'' None fresh_world = (Inr res, w')
    \<and> trace w' = trace fresh_world @ new
    \<and> planner_calls new = 8
    \<and> summary res = fallback_summary rental st'
    \<and> summary res = ''No listings found in San Diego, CA matching your criteria.''"
proof -
  have asks: "\<forall>i ms. \<exists>rsp. messages_create asking_env i ms = Inr rsp
                          \<and> stop_reason rsp = ''tool_use''"
    by (simp add: asking_env_def)
  note capped = planner_turns_capped [of asking_env rental "''u''" None fresh_world]
  from capped asks obtain res w' new where
    run: "run_agent_loop asking_env rental ''u'' None fresh_world = (Inr res, w')"
    and tr: "trace w' = trace fresh_world @ new"
    and calls: "planner_calls new = 8"
    by blast
  have "trace (snd (run_agent_loop asking_env rental ''u'' None fresh_world)) =
          trace fresh_world @ new"
    using run tr by simp
  then have new: "new = trace (snd (run_agent_loop asking_env rental ''u'' None fresh_world))"
    by (simp add: fresh_world_def)
  have "stop_reason (last (planner_replies
          (trace (snd (run_agent_loop asking_env rental ''u'' None fresh_world))))) \<noteq> ''end_turn''"
    by code_simp
  then have cap: "stop_reason (last (planner_replies new)) \<noteq> ''end_turn''"
    using new by simp
  from capped run tr calls cap obtain st' where
    fb: "summary res = fallback_summary rental st'"
    by blast
  have "map_sum id summary (fst (run_agent_loop asking_env rental ''u'' None fresh_world)) =
          Inr ''No listings found in San Diego, CA matching your criteria.''"
    by code_simp
  then have "summary res = ''No listings found in San Diego, CA matching your criteria.''"
    using run by simp
  with run tr calls fb show ?thesis by blast
qed



section \<open>The entry points\<close>

lemma parse_search_intent_world:
  "snd (parse_search_intent e q w) =
     w\<lparr>trace := trace w @ [EvParse q (parse_reply e (length (trace w)) q)]\<rparr>"
  by (simp add: parse_search_intent_def log_def Let_def split: sum.splits)





text \<open>
  C3. A fresh run whose parsed criteria have an empty location returns
  zero results, an empty sheet URL and the fixed clarification summary; the only
  collaborator called is the intent parser, and the sessions and the search timestamp
  stay as they were. A follow-up for a user without a stored session is such a fresh
  run. (A follow-up for a user with a stored session goes to the agent loop without
  looking at the location.)
\<close>

theorem no_location_no_run:
  assumes "parse_search_intent e (user_request input_data) w = (Inr si, w1)"
      and "location si = []"
  shows "run_workflow e input_data w =
           (Inr \<lparr>wr_sheet_url = [],
                 summary = ''Could not determine a location. Please include a city, state, or zip code.'',
                 wr_num_results = 0, session_id = None\<rparr>, w1)
       \<and> w1 = w\<lparr>trace := trace w @
                  [EvParse (user_request input_data)
                     (parse_reply e (length (trace w)) (user_request input_data))]\<rparr>
       \<and> (sessions w (wi_user_id input_data) = None \<or> sessions w (wi_user_id input_data) = Some []
            \<longrightarrow> resume_workflow e input_data w = run_workflow e input_data w)"
  using assms parse_search_intent_world [of e "user_request input_data" w]
  by (auto simp: run_workflow_def resume_workflow_def no_location_summary_def)

theorem no_location_no_run_witness:
  "run_workflow vague_env next_request fresh_world =
     (Inr \<lparr>wr_sheet_url = [],
           summary = ''Could not determine a location. Please include a city, state, or zip code.'',
           wr_num_results = 0, session_id = None\<rparr>,
      fresh_world\<lparr>trace := [EvParse ''show me cheaper ones'' (Inr no_criteria)]\<rparr>)
   \<and> resume_workflow vague_env next_request fresh_world =
       run_workflow vague_env next_request fresh_world"
proof -
  let ?p = "parse_search_intent vague_env (user_request next_request) fresh_world"
  let ?si = "\<lparr>location = [], listing_type = ''for_sale'', min_price = None,
              max_price = None, min_beds = None, max_beds = None, min_sqft = None,
              max_sqft = None, property_type = None, past_days = 30\<rparr>"
  have "fst ?p = Inr ?si"
    by code_simp
  then have parse: "?p = (Inr ?si, snd ?p)"
    by (metis prod.collapse)
  have loc: "location ?si = []"
    by simp
  have w1: "fresh_world\<lparr>trace := trace fresh_world @
                  [EvParse (user_request next_request)
                     (parse_reply vague_env (length (trace fresh_world))
                        (user_request next_request))]\<rparr> =
            fresh_world\<lparr>trace := [EvParse ''show me cheaper ones'' (Inr no_criteria)]\<rparr>"
    by (simp add: fresh_world_def next_request_def vague_env_def)
  have nosession: "sessions fresh_world (wi_user_id next_request) = None"
    by (simp add: fresh_world_def)
  from no_location_no_run [OF parse loc] w1 nosession show ?thesis
    by simp
qed

theorem follow_up_skips_location_check_counterexample:
  "map_sum id location
     (fst (parse_search_intent vague_env (user_request next_request) world_after_run)) = Inr []
   \<and> map_sum id summary (fst (resume_workflow vague_env next_request world_after_run)) =
       Inr ''Done.''
   \<and> planner_calls (drop (length (trace world_after_run))
        (trace (snd (resume_workflow vague_env next_request world_after_run)))) = 1"
  by code_simp




section \<open>Replies of the bridge\<close>

text \<open>
  C5. In the reply to a \<^verbatim>\<open>SearchRequest\<close> whose run returns, the error
  field is non-empty exactly when the reply has no sheet URL and its summary contains
  the phrase \<^verbatim>\<open>Google authorization required\<close>, and the error field is then the summary:
  authorization instructions that the summary carries stand in both fields. When the run
  raises, the error field is the text of the exception, and summary and sheet URL are
  empty; this holds for a \<^verbatim>\<open>FollowUpRequest\<close> too, whose reply otherwise copies summary
  and sheet URL from the result of the run. For the authorization query the summary is
  the answer of the authorization check, and the error field repeats it unless it says
  that Google is already connected.
\<close>

theorem reply_error_field:
  "(\<forall>reply w'. handle_search e sender msg w = (Some reply, w') \<longrightarrow>
      (lower (strip (query msg)) \<notin> set [''/google-auth'', ''google auth'', ''connect google'']
         \<longrightarrow>
         (case fst (run_workflow e \<lparr>user_request = query msg,
                                    wi_user_id = resolve_user_id (msg_user_id msg) sender\<rparr> w) of
            Inr res \<Rightarrow>
              sr_summary reply = summary res \<and> sr_sheet_url reply = wr_sheet_url res
              \<and> (error reply \<noteq> [] \<longleftrightarrow>
                   sr_sheet_url reply = [] \<and>
                   contains ''Google authorization required'' (sr_summary reply))
              \<and> (error reply \<noteq> [] \<longrightarrow> error reply = sr_summary reply)
          | Inl ex \<Rightarrow>
              error reply = str_exn ex \<and> sr_summary reply = [] \<and> sr_sheet_url reply = []))
    \<and> (lower (strip (query msg)) \<in> set [''/google-auth'', ''google auth'', ''connect google'']
         \<longrightarrow>
         error reply =
           (if startswith (sr_summary reply) ''Google is already connected'' then []
            else sr_summary reply)))
   \<and> (\<forall>reply w'. handle_followup e sender msg w = (Some reply, w') \<longrightarrow>
        (case fst (resume_workflow e \<lparr>user_request = query msg,
                                     wi_user_id = resolve_user_id (msg_user_id msg) sender\<rparr> w) of
           Inr res \<Rightarrow> sr_summary reply = summary res \<and> sr_sheet_url reply = wr_sheet_url res
         | Inl ex \<Rightarrow>
             error reply = str_exn ex \<and> sr_summary reply = [] \<and> sr_sheet_url reply = []))"
proof -
  let ?input = "\<lparr>user_request = query msg,
                 wi_user_id = resolve_user_id (msg_user_id msg) sender\<rparr>"
  obtain r w1 where run: "run_workflow e ?input w = (r, w1)"
    by (cases "run_workflow e ?input w") auto
  obtain r2 w2 where resume: "resume_workflow e ?input w = (r2, w2)"
    by (cases "resume_workflow e ?input w") auto
  obtain a w3 where auth:
    "get_google_auth_message e (resolve_user_id (msg_user_id msg) sender) w = (a, w3)"
    by (cases "get_google_auth_message e (resolve_user_id (msg_user_id msg) sender) w") auto
  have search: "\<forall>reply w'. handle_search e sender msg w = (Some reply, w') \<longrightarrow>
      (lower (strip (query msg)) \<notin> set [''/google-auth'', ''google auth'', ''connect google'']
         \<longrightarrow>
         (case fst (run_workflow e ?input w) of
            Inr res \<Rightarrow>
              sr_summary reply = summary res \<and> sr_sheet_url reply = wr_sheet_url res
              \<and> (error reply \<noteq> [] \<longleftrightarrow>
                   sr_sheet_url reply = [] \<and>
                   contains ''Google authorization required'' (sr_summary reply))
              \<and> (error reply \<noteq> [] \<longrightarrow> error reply = sr_summary reply)
          | Inl ex \<Rightarrow>
              error reply = str_exn ex \<and> sr_summary reply = [] \<and> sr_sheet_url reply = []))
    \<and> (lower (strip (query msg)) \<in> set [''/google-auth'', ''google auth'', ''connect google'']
         \<longrightarrow>
         error reply =
           (if startswith (sr_summary reply) ''Google is already connected'' then []
            else sr_summary reply))"
    using run auth
    by (cases r; cases a)
       (auto simp: handle_search_def Let_def default_response_def)
  have followup: "\<forall>reply w'. handle_followup e sender msg w = (Some reply, w') \<longrightarrow>
        (case fst (resume_workflow e ?input w) of
           Inr res \<Rightarrow> sr_summary reply = summary res \<and> sr_sheet_url reply = wr_sheet_url res
         | Inl ex \<Rightarrow>
             error reply = str_exn ex \<and> sr_summary reply = [] \<and> sr_sheet_url reply = [])"
    using resume
    by (cases r2) (auto simp: handle_followup_def Let_def default_response_def)
  from search followup show ?thesis by blast
qed

theorem reply_error_field_witness:
  "fst (handle_search unauthorized_env ''agent1'' \<lparr>query = ''3 bed house in Austin TX'',
                                                   msg_user_id = ''u''\<rparr> fresh_world) =
     Some \<lparr>sr_sheet_url = [],
           sr_summary = ''Found 3 listings in Austin, TX, but sheet creation failed. '' @
                        auth_instructions,
           sr_num_results = 3, sr_session_id = ''u'',
           error = ''Found 3 listings in Austin, TX, but sheet creation failed. '' @
                   auth_instructions\<rparr>
   \<and> error (the (fst (handle_search unauthorized_env ''agent1''
                        \<lparr>query = ''3 bed house in Austin TX'', msg_user_id = ''u''\<rparr>
                        fresh_world))) \<noteq> []
   \<and> fst (handle_search unparsed_env ''agent1'' \<lparr>query = ''3 bed house in Austin TX'',
                                                 msg_user_id = ''u''\<rparr> fresh_world) =
       Some (default_response\<lparr>error := ''Expecting value'', sr_session_id := ''u''\<rparr>)"
proof -
  let ?msg = "\<lparr>query = ''3 bed house in Austin TX'', msg_user_id = ''u''\<rparr>"
  let ?h = "handle_search unauthorized_env ''agent1'' ?msg fresh_world"
  let ?reply = "\<lparr>sr_sheet_url = [],
           sr_summary = ''Found 3 listings in Austin, TX, but sheet creation failed. '' @
                        auth_instructions,
           sr_num_results = 3, sr_session_id = ''u'',
           error = ''Found 3 listings in Austin, TX, but sheet creation failed. '' @
                   auth_instructions\<rparr>"
  have "fst ?h = Some ?reply"
    by code_simp
  then have h: "?h = (Some ?reply, snd ?h)"
    by (metis prod.collapse)
  have q: "lower (strip (query ?msg)) \<notin>
             set [''/google-auth'', ''google auth'', ''connect google'']"
    by code_simp
  have run: "fst (run_workflow unauthorized_env
               \<lparr>user_request = query ?msg,
                wi_user_id = resolve_user_id (msg_user_id ?msg) ''agent1''\<rparr> fresh_world) =
             Inr \<lparr>wr_sheet_url = [],
                  summary = ''Found 3 listings in Austin, TX, but sheet creation failed. '' @
                            auth_instructions,
                  wr_num_results = 3, session_id = Some ''u''\<rparr>"
    by code_simp
  have c: "sr_sheet_url ?reply = [] \<and>
           contains ''Google authorization required'' (sr_summary ?reply)"
    by code_simp
  from reply_error_field [of unauthorized_env "''agent1''" ?msg fresh_world] h q
  have "case fst (run_workflow unauthorized_env
               \<lparr>user_request = query ?msg,
                wi_user_id = resolve_user_id (msg_user_id ?msg) ''agent1''\<rparr> fresh_world) of
            Inr res \<Rightarrow>
              sr_summary ?reply = summary res \<and> sr_sheet_url ?reply = wr_sheet_url res
              \<and> (error ?reply \<noteq> [] \<longleftrightarrow>
                   sr_sheet_url ?reply = [] \<and>
                   contains ''Google authorization required'' (sr_summary ?reply))
              \<and> (error ?reply \<noteq> [] \<longrightarrow> error ?reply = sr_summary ?reply)
          | Inl ex \<Rightarrow>
              error ?reply = str_exn ex \<and> sr_summary ?reply = [] \<and> sr_sheet_url ?reply = []"
    by blast
  then have "error ?reply \<noteq> [] \<longleftrightarrow>
               sr_sheet_url ?reply = [] \<and>
               contains ''Google authorization required'' (sr_summary ?reply)"
    unfolding run by simp
  with c have ne: "error ?reply \<noteq> []"
    by blast
  have raised: "fst (handle_search unparsed_env ''agent1'' ?msg fresh_world) =
       Some (default_response\<lparr>error := ''Expecting value'', sr_session_id := ''u''\<rparr>)"
    by code_simp
  from \<open>fst ?h = Some ?reply\<close> ne raised show ?thesis
    by simp
qed

theorem clarification_without_error_counterexample:
  "fst (handle_search vague_env ''agent1'' \<lparr>query = ''find me a house'', msg_user_id = ''u''\<rparr>
          fresh_world) =
     Some \<lparr>sr_sheet_url = [], sr_summary = no_location_summary, sr_num_results = 0,
           sr_session_id = ''u'', error = []\<rparr>"
  by code_simp

section \<open>The listings table\<close>






lemma apply_filter_columns:
  "apply_filter bound col cell cmp x = Inr fr' \<Longrightarrow>
   \<exists>fr. x = Inr fr \<and> columns fr' = columns fr"
  by (auto simp: apply_filter_def filter_rows_def split: sum.splits option.splits if_splits)












end
